theory Spec2Isabelle
  imports Complex_Main "HOL-Library.Log_Nat"
begin

section \<open>Floating-point values\<close>

text \<open>
  The cuts of \<^verbatim>\<open>kstarToK0Gamma.cxx\<close> compare C++ \<^verbatim>\<open>float\<close> and \<^verbatim>\<open>double\<close>
  values. A value is a NaN, an infinity or a finite real; a column or a configurable of
  type \<^verbatim>\<open>float\<close> holds a real of the binary32 format, a \<^verbatim>\<open>double\<close> one of the
  binary64 format. Comparisons follow IEEE 754: every ordered comparison with a NaN
  operand is false, and the two infinities are bottom and top. The conversion of a
  \<^verbatim>\<open>float\<close> to \<^verbatim>\<open>double\<close> is exact, so a mixed comparison compares the reals.
  Signed zeros are not told apart (no comparison separates them).
\<close>

datatype fp = NaN | MInf | Fin real | PInf

text \<open>\<^verbatim>\<open>a < b\<close>\<close>

fun flt :: "fp \<Rightarrow> fp \<Rightarrow> bool" where
  "flt NaN b = False"
| "flt a NaN = False"
| "flt MInf MInf = False"
| "flt MInf b = True"
| "flt (Fin x) MInf = False"
| "flt (Fin x) (Fin y) = (x < y)"
| "flt (Fin x) PInf = True"
| "flt PInf b = False"

text \<open>\<^verbatim>\<open>a > b\<close>\<close>

definition fgt :: "fp \<Rightarrow> fp \<Rightarrow> bool" where
  "fgt a b = flt b a"

text \<open>\<^verbatim>\<open>std::abs\<close> and \<^verbatim>\<open>std::fabs\<close>\<close>

fun fabs :: "fp \<Rightarrow> fp" where
  "fabs NaN = NaN"
| "fabs MInf = PInf"
| "fabs (Fin x) = Fin \<bar>x\<bar>"
| "fabs PInf = PInf"

text \<open>\<^verbatim>\<open>-a\<close>\<close>

fun fneg :: "fp \<Rightarrow> fp" where
  "fneg NaN = NaN"
| "fneg MInf = PInf"
| "fneg (Fin x) = Fin (- x)"
| "fneg PInf = MInf"

subsection \<open>Rounding\<close>

text \<open>The integer nearest to a real, the even one of the two when it lies half-way.\<close>

definition roundTiesToEven :: "real \<Rightarrow> int" where
  "roundTiesToEven x =
     (let f = \<lfloor>x\<rfloor> in
      if x - of_int f < 1 / 2 then f
      else if x - of_int f > 1 / 2 then f + 1
      else if even f then f else f + 1)"

text \<open>
  Rounding to nearest, ties to even, into a binary format with \<open>p\<close> bits of precision,
  whose least positive (subnormal) value is \<open>2\<^sup>-\<^sup>s\<close> and whose finite values lie below
  \<open>2\<^sup>e\<^sup>m\<^sup>a\<^sup>x\<close>. The magnitude is taken in units of the least positive value; a
  magnitude whose integer part has \<open>b\<close> bits lies where the values of the format are
  \<open>2\<^sup>b\<^sup>-\<^sup>p\<close> units apart (one unit apart for \<open>b \<le> p\<close>, the subnormal values and the
  first normal ones), and is rounded to a multiple of that spacing. A result that
  reaches \<open>2\<^sup>e\<^sup>m\<^sup>a\<^sup>x\<close> overflows to the infinity of its sign.
\<close>

definition roundFormat :: "nat \<Rightarrow> nat \<Rightarrow> nat \<Rightarrow> real \<Rightarrow> fp" where
  "roundFormat p s emax x =
     (let y = \<bar>x\<bar> * 2 ^ s;
          q = 2 ^ nat (bitlen \<lfloor>y\<rfloor> - int p);
          r = of_int (roundTiesToEven (y / q)) * q / 2 ^ s
      in if 2 ^ emax \<le> r then (if x < 0 then MInf else PInf)
         else Fin (if x < 0 then - r else r))"

text \<open>The result of an operation on \<^verbatim>\<open>float\<close> operands (binary32).\<close>

definition round32 :: "real \<Rightarrow> fp" where
  "round32 = roundFormat 24 149 128"

text \<open>The result of an operation with a \<^verbatim>\<open>double\<close> operand (binary64).\<close>

definition round64 :: "real \<Rightarrow> fp" where
  "round64 = roundFormat 53 1074 1024"

subsection \<open>Arithmetic\<close>

text \<open>
  Each operation takes the rounding of the type in which C++ evaluates it:
  \<open>round32\<close> when both operands are \<^verbatim>\<open>float\<close>, \<open>round64\<close> when one is a \<^verbatim>\<open>double\<close>.
\<close>

text \<open>\<^verbatim>\<open>a + b\<close>: opposite infinities give NaN.\<close>

fun fadd :: "(real \<Rightarrow> fp) \<Rightarrow> fp \<Rightarrow> fp \<Rightarrow> fp" where
  "fadd rnd NaN b = NaN"
| "fadd rnd a NaN = NaN"
| "fadd rnd MInf PInf = NaN"
| "fadd rnd PInf MInf = NaN"
| "fadd rnd MInf b = MInf"
| "fadd rnd PInf b = PInf"
| "fadd rnd (Fin x) MInf = MInf"
| "fadd rnd (Fin x) PInf = PInf"
| "fadd rnd (Fin x) (Fin y) = rnd (x + y)"

text \<open>\<^verbatim>\<open>a - b\<close>\<close>

definition fsub :: "(real \<Rightarrow> fp) \<Rightarrow> fp \<Rightarrow> fp \<Rightarrow> fp" where
  "fsub rnd a b = fadd rnd a (fneg b)"

text \<open>\<^verbatim>\<open>a * b\<close>: zero times an infinity gives NaN.\<close>

fun fmul :: "(real \<Rightarrow> fp) \<Rightarrow> fp \<Rightarrow> fp \<Rightarrow> fp" where
  "fmul rnd NaN b = NaN"
| "fmul rnd a NaN = NaN"
| "fmul rnd (Fin x) (Fin y) = rnd (x * y)"
| "fmul rnd (Fin x) PInf = (if x = 0 then NaN else if 0 < x then PInf else MInf)"
| "fmul rnd (Fin x) MInf = (if x = 0 then NaN else if 0 < x then MInf else PInf)"
| "fmul rnd PInf (Fin y) = (if y = 0 then NaN else if 0 < y then PInf else MInf)"
| "fmul rnd MInf (Fin y) = (if y = 0 then NaN else if 0 < y then MInf else PInf)"
| "fmul rnd PInf PInf = PInf"
| "fmul rnd MInf MInf = PInf"
| "fmul rnd PInf MInf = MInf"
| "fmul rnd MInf PInf = MInf"

text \<open>The \<^verbatim>\<open>double\<close> that the literal \<^verbatim>\<open>1e-4\<close> denotes: the binary64 value nearest to it.\<close>

definition literal_1e_4 :: fp where
  "literal_1e_4 = Fin (7378697629483821 / 2 ^ 66)"

section \<open>Data model\<close>

text \<open>
  A row of \<^verbatim>\<open>DauTracks\<close> (\<^verbatim>\<open>DauTrackExtras\<close> joined with \<^verbatim>\<open>DauTrackTPCPIDs\<close>),
  with the columns the task reads.
\<close>

record DauTrack =
  itsChi2PerNcl :: fp
  itsNCls :: int
  tpcCrossedRows :: int
  detectorMap :: int
  tpcNSigmaEl :: fp
  tpcNSigmaPi :: fp

text \<open>
  A row of \<^verbatim>\<open>V0MCCores\<close>. A candidate type without the accessor \<^verbatim>\<open>v0MCCore_as\<close>
  (the \<^verbatim>\<open>if constexpr (requires ...)\<close> of the source) has no such row.
\<close>

record V0MCCore =
  pdgCode :: int
  pdgCodePositive :: int
  pdgCodeNegative :: int
  pdgCodeMother :: int
  pxMC :: fp
  pyMC :: fp
  pzMC :: fp

text \<open>
  A V0 candidate: a row of the joined \<^verbatim>\<open>V0Candidates\<close> table. The two daughter rows
  that \<^verbatim>\<open>posTrackExtra_as<DauTracks>()\<close> and \<^verbatim>\<open>negTrackExtra_as<DauTracks>()\<close>
  dereference are held with the candidate; \<open>v0MCCore\<close> is \<open>None\<close> for a candidate
  type without MC information. \<open>distovertotmom\<close> is the dynamic column of that name,
  a function of the primary-vertex position.
\<close>

record V0 =
  globalIndex :: int
  posTrackExtraId :: int
  negTrackExtraId :: int
  posTrackExtra :: DauTrack
  negTrackExtra :: DauTrack
  v0MCCore :: "V0MCCore option"
  v0Type :: int
  px :: fp
  py :: fp
  pz :: fp
  z :: fp
  negativeeta :: fp
  positiveeta :: fp
  v0radius :: fp
  dcapostopv :: fp
  dcanegtopv :: fp
  v0cosPA :: fp
  dcaV0daughters :: fp
  dcav0topv :: fp
  mGamma :: fp
  mK0Short :: fp
  mLambda :: fp
  posTOFDeltaTK0Pi :: fp
  negTOFDeltaTK0Pi :: fp
  tofNSigmaK0PiPlus :: fp
  tofNSigmaK0PiMinus :: fp
  distovertotmom :: "fp \<Rightarrow> fp \<Rightarrow> fp \<Rightarrow> fp"
  qtarm :: fp
  alpha :: fp
  k0ShortBDTScore :: fp
  antiLambdaBDTScore :: fp

record Collision =
  posX :: fp
  posY :: fp
  posZ :: fp

text \<open>
  The configurables that the groups \<^verbatim>\<open>v0Selections\<close> and \<^verbatim>\<open>photonSelections\<close>
  both declare, then the fields of each group alone.
\<close>

record Selections =
  v0TypeSelection :: int
  daughterEtaCut :: fp
  v0cospa :: fp
  dcav0dau :: fp
  dcav0topv :: fp
  dcapostopv :: fp
  dcanegtopv :: fp
  v0radius :: fp
  v0radiusMax :: fp
  armPodCut :: fp
  minTPCrows :: int
  minITSclusters :: int
  skipTPConly :: bool
  requirePosITSonly :: bool
  requireNegITSonly :: bool
  rejectPosITSafterburner :: bool
  rejectNegITSafterburner :: bool
  tpcPidNsigmaCut :: fp

record V0Selections = Selections +
  lifetimeCut :: fp
  v0MassWindow :: fp
  compMassRejection :: fp
  tofPidNsigmaCutLaPr :: fp
  tofPidNsigmaCutLaPi :: fp
  tofPidNsigmaCutK0Pi :: fp
  maxDeltaTimeProton :: fp
  maxDeltaTimePion :: fp

record PhotonSelections = Selections +
  photonZMax :: fp
  photonMassMax :: fp

record MlConfigurations =
  useK0ShortScores :: bool
  useGammaScores :: bool
  calculateK0ShortScores :: bool
  calculateGammaScores :: bool
  thresholdK0Short :: fp
  thresholdGamma :: fp

text \<open>The configurables of the task \<^verbatim>\<open>KstarToK0Gamma\<close> that the selection and the pairing read.\<close>

record KstarToK0Gamma =
  doPPAnalysis :: bool
  doMCAssociation :: bool
  rapidityCut :: fp
  v0Selections :: V0Selections
  photonSelections :: PhotonSelections
  mlConfigurations :: MlConfigurations

text \<open>
  Constants that the task takes from headers outside the two source files (the
  masses of \<^verbatim>\<open>o2::constants::physics\<close>, of type \<^verbatim>\<open>double\<close>, and
  \<^verbatim>\<open>o2::aod::track::TPC\<close>): they are parameters of the model.
\<close>

record Constants =
  MassK0Short :: fp
  MassLambda0 :: fp
  MassKaonNeutral :: fp
  MassGamma :: fp
  TPC :: int

section \<open>Candidate selection\<close>

text \<open>
  \<^verbatim>\<open>isV0Selected(v0, collision, isPhoton)\<close>: the cuts in the order of the source, each
  \<^verbatim>\<open>if (...) return false;\<close> one branch. The source returns \<^verbatim>\<open>uint64_t\<close> but only
  ever \<^verbatim>\<open>false\<close> or \<^verbatim>\<open>true\<close>, and its callers store the result in a \<^verbatim>\<open>bool\<close>.
\<close>

definition isV0Selected :: "KstarToK0Gamma \<Rightarrow> Constants \<Rightarrow> V0 \<Rightarrow> Collision \<Rightarrow> bool \<Rightarrow> bool" where
  "isV0Selected task K v0 collision isPhoton =
    (if isPhoton then
      (if fgt (z v0) (photonZMax (photonSelections task)) then False
       else if fgt (fabs (negativeeta v0)) (daughterEtaCut (photonSelections task))
             \<or> fgt (fabs (positiveeta v0)) (daughterEtaCut (photonSelections task)) then False
       else if v0TypeSelection (photonSelections task) > -1
             \<and> v0Type v0 \<noteq> v0TypeSelection (photonSelections task) then False
       else if flt (V0.v0radius v0) (Selections.v0radius (photonSelections task)) then False
       else if fgt (V0.v0radius v0) (v0radiusMax (photonSelections task)) then False
       else if flt (fabs (V0.dcapostopv v0)) (Selections.dcapostopv (photonSelections task)) then False
       else if fgt (fabs (V0.dcanegtopv v0)) (Selections.dcanegtopv (photonSelections task)) then False
       else if flt (v0cosPA v0) (v0cospa (photonSelections task)) then False
       else if fgt (dcaV0daughters v0) (dcav0dau (photonSelections task)) then False
       else if flt (V0.dcav0topv v0) (Selections.dcav0topv (photonSelections task)) then False
       else if fgt (mGamma v0) (photonMassMax (photonSelections task)) then False
       else if itsNCls (posTrackExtra v0) < minITSclusters (photonSelections task) then False
       else if itsNCls (negTrackExtra v0) < minITSclusters (photonSelections task) then False
       else if rejectPosITSafterburner (photonSelections task)
             \<and> flt (itsChi2PerNcl (posTrackExtra v0)) (Fin 0) then False
       else if rejectNegITSafterburner (photonSelections task)
             \<and> flt (itsChi2PerNcl (negTrackExtra v0)) (Fin 0) then False
       else if tpcCrossedRows (posTrackExtra v0) < minTPCrows (photonSelections task) then False
       else if tpcCrossedRows (negTrackExtra v0) < minTPCrows (photonSelections task) then False
       else if fgt (fabs (tpcNSigmaEl (posTrackExtra v0))) (tpcPidNsigmaCut (photonSelections task)) then False
       else if fgt (fabs (tpcNSigmaEl (negTrackExtra v0))) (tpcPidNsigmaCut (photonSelections task)) then False
       else if requirePosITSonly (photonSelections task) \<and> tpcCrossedRows (posTrackExtra v0) > 0 then False
       else if requireNegITSonly (photonSelections task) \<and> tpcCrossedRows (negTrackExtra v0) > 0 then False
       else if skipTPConly (photonSelections task) \<and> detectorMap (posTrackExtra v0) = TPC K then False
       else if skipTPConly (photonSelections task) \<and> detectorMap (negTrackExtra v0) = TPC K then False
       else if fgt (armPodCut (photonSelections task)) literal_1e_4
             \<and> flt (fmul round32 (qtarm v0) (armPodCut (photonSelections task))) (fabs (alpha v0)) then False
       else if doMCAssociation task then
         (case v0MCCore v0 of
            None \<Rightarrow> True
          | Some v0MC \<Rightarrow>
              (if pdgCode v0MC \<noteq> 22 \<or> pdgCodePositive v0MC \<noteq> 11 \<or> pdgCodeNegative v0MC \<noteq> -11
               then False else True))
       else True)
     else
      (if fgt (fabs (negativeeta v0)) (daughterEtaCut (photonSelections task))
             \<or> fgt (fabs (positiveeta v0)) (daughterEtaCut (photonSelections task)) then False
       else if v0TypeSelection (photonSelections task) > -1
             \<and> v0Type v0 \<noteq> v0TypeSelection (photonSelections task) then False
       else if flt (V0.v0radius v0) (Selections.v0radius (v0Selections task)) then False
       else if fgt (V0.v0radius v0) (v0radiusMax (v0Selections task)) then False
       else if flt (fabs (V0.dcapostopv v0)) (Selections.dcapostopv (v0Selections task)) then False
       else if fgt (fabs (V0.dcanegtopv v0)) (Selections.dcanegtopv (v0Selections task)) then False
       else if flt (v0cosPA v0) (v0cospa (v0Selections task)) then False
       else if fgt (dcaV0daughters v0) (dcav0dau (v0Selections task)) then False
       else if flt (V0.dcav0topv v0) (Selections.dcav0topv (v0Selections task)) then False
       else if fgt (fabs (fsub round64 (mK0Short v0) (MassK0Short K))) (v0MassWindow (v0Selections task)) then False
       else if flt (fabs (fsub round64 (mLambda v0) (MassLambda0 K))) (compMassRejection (v0Selections task)) then False
       else if itsNCls (posTrackExtra v0) < minITSclusters (v0Selections task) then False
       else if itsNCls (negTrackExtra v0) < minITSclusters (v0Selections task) then False
       else if rejectPosITSafterburner (v0Selections task)
             \<and> flt (itsChi2PerNcl (posTrackExtra v0)) (Fin 0) then False
       else if rejectNegITSafterburner (v0Selections task)
             \<and> flt (itsChi2PerNcl (negTrackExtra v0)) (Fin 0) then False
       else if tpcCrossedRows (posTrackExtra v0) < minTPCrows (v0Selections task) then False
       else if tpcCrossedRows (negTrackExtra v0) < minTPCrows (v0Selections task) then False
       else if fgt (fabs (tpcNSigmaPi (posTrackExtra v0))) (tpcPidNsigmaCut (v0Selections task)) then False
       else if fgt (fabs (tpcNSigmaPi (negTrackExtra v0))) (tpcPidNsigmaCut (v0Selections task)) then False
       else if fgt (fabs (posTOFDeltaTK0Pi v0)) (maxDeltaTimePion (v0Selections task)) then False
       else if fgt (fabs (negTOFDeltaTK0Pi v0)) (maxDeltaTimePion (v0Selections task)) then False
       else if fgt (fabs (tofNSigmaK0PiPlus v0)) (tofPidNsigmaCutK0Pi (v0Selections task)) then False
       else if fgt (fabs (tofNSigmaK0PiMinus v0)) (tofPidNsigmaCutK0Pi (v0Selections task)) then False
       else if requirePosITSonly (v0Selections task) \<and> tpcCrossedRows (posTrackExtra v0) > 0 then False
       else if requireNegITSonly (v0Selections task) \<and> tpcCrossedRows (negTrackExtra v0) > 0 then False
       else if skipTPConly (v0Selections task) \<and> detectorMap (posTrackExtra v0) = TPC K then False
       else if skipTPConly (v0Selections task) \<and> detectorMap (negTrackExtra v0) = TPC K then False
       else if fgt (fmul round64 (distovertotmom v0 (posX collision) (posY collision) (posZ collision)) (MassK0Short K))
                   (lifetimeCut (v0Selections task)) then False
       else if fgt (armPodCut (v0Selections task)) literal_1e_4
             \<and> flt (fmul round32 (qtarm v0) (armPodCut (v0Selections task))) (fabs (alpha v0)) then False
       else if doMCAssociation task then
         (case v0MCCore v0 of
            None \<Rightarrow> True
          | Some v0MC \<Rightarrow>
              (if pdgCode v0MC \<noteq> 310 \<or> pdgCodePositive v0MC \<noteq> 211 \<or> pdgCodeNegative v0MC \<noteq> -211
               then False else True))
       else True))"

section \<open>Unchecked vector accesses\<close>

text \<open>
  \<^verbatim>\<open>operator[]\<close> of \<^verbatim>\<open>std::vector\<close> and of a raw pointer does not check its index;
  an index outside the vector is undefined behaviour in C++. The model makes it a
  value of its own, so that no theorem speaks about what an out-of-range access reads.
\<close>

datatype fault = OutOfRange

definition vecAt :: "'a list \<Rightarrow> int \<Rightarrow> fault + 'a" where
  "vecAt xs i = (if 0 \<le> i \<and> i < int (length xs) then Inr (xs ! nat i) else Inl OutOfRange)"

definition vecPut :: "'a list \<Rightarrow> int \<Rightarrow> 'a \<Rightarrow> fault + 'a list" where
  "vecPut xs i v = (if 0 \<le> i \<and> i < int (length xs) then Inr (xs[nat i := v]) else Inl OutOfRange)"

section \<open>Selection masks\<close>

text \<open>
  The two ONNX models of the task are external inference engines: \<^verbatim>\<open>evalModel\<close> is a
  parameter of the model, a function from the input features to the returned array of
  probabilities.
\<close>

record OnnxModels =
  mlCustomModelK0Short :: "fp list \<Rightarrow> fp list"
  mlCustomModelGamma :: "fp list \<Rightarrow> fp list"

text \<open>The \<^verbatim>\<open>inputFeatures\<close> vector of \<^verbatim>\<open>analyseV0Candidate\<close>.\<close>

definition inputFeatures :: "V0 \<Rightarrow> fp \<Rightarrow> fp list" where
  "inputFeatures v0 pT =
     [pT, Fin 0, Fin 0, V0.v0radius v0, v0cosPA v0, dcaV0daughters v0, V0.dcapostopv v0, V0.dcanegtopv v0]"

text \<open>
  The local \<^verbatim>\<open>passK0ShortSelections\<close> of \<^verbatim>\<open>analyseV0Candidate\<close>: it starts false and
  is set when the score exceeds the threshold, or else is the result of the cuts.
\<close>

definition passK0ShortSelections ::
  "KstarToK0Gamma \<Rightarrow> Constants \<Rightarrow> OnnxModels \<Rightarrow> V0 \<Rightarrow> Collision \<Rightarrow> fp \<Rightarrow> fault + bool" where
  "passK0ShortSelections task K M v0 collision pT =
     (if useK0ShortScores (mlConfigurations task) then
        (case (if calculateK0ShortScores (mlConfigurations task)
               then vecAt (mlCustomModelK0Short M (inputFeatures v0 pT)) 1
               else Inr (k0ShortBDTScore v0)) of
           Inl e \<Rightarrow> Inl e
         | Inr k0shortScore \<Rightarrow> Inr (fgt k0shortScore (thresholdK0Short (mlConfigurations task))))
      else Inr (isV0Selected task K v0 collision False))"

text \<open>The local \<^verbatim>\<open>passGammaSelections\<close> of \<^verbatim>\<open>analyseV0Candidate\<close>.\<close>

definition passGammaSelections ::
  "KstarToK0Gamma \<Rightarrow> Constants \<Rightarrow> OnnxModels \<Rightarrow> V0 \<Rightarrow> Collision \<Rightarrow> fp \<Rightarrow> fault + bool" where
  "passGammaSelections task K M v0 collision pT =
     (if useGammaScores (mlConfigurations task) then
        (case (if calculateGammaScores (mlConfigurations task)
               then vecAt (mlCustomModelGamma M (inputFeatures v0 pT)) 1
               else Inr (antiLambdaBDTScore v0)) of
           Inl e \<Rightarrow> Inl e
         | Inr gammaScore \<Rightarrow> Inr (fgt gammaScore (thresholdGamma (mlConfigurations task))))
      else Inr (isV0Selected task K v0 collision True))"

text \<open>
  \<^verbatim>\<open>analyseV0Candidate\<close> writes the two decisions into the masks at the local index
  \<^verbatim>\<open>v0.globalIndex() - v0TableOffset\<close> and returns the masks.
\<close>

definition analyseV0Candidate ::
  "KstarToK0Gamma \<Rightarrow> Constants \<Rightarrow> OnnxModels \<Rightarrow> V0 \<Rightarrow> Collision \<Rightarrow> fp \<Rightarrow> bool list \<Rightarrow> bool list \<Rightarrow> int
     \<Rightarrow> fault + (bool list \<times> bool list)" where
  "analyseV0Candidate task K M v0 collision pT selK0ShortIndices selGammaIndices v0TableOffset =
     (case passK0ShortSelections task K M v0 collision pT of
        Inl e \<Rightarrow> Inl e
      | Inr passK0 \<Rightarrow>
          (case passGammaSelections task K M v0 collision pT of
             Inl e \<Rightarrow> Inl e
           | Inr passGamma \<Rightarrow>
               (case vecPut selK0ShortIndices (globalIndex v0 - v0TableOffset) passK0 of
                  Inl e \<Rightarrow> Inl e
                | Inr selK0ShortIndices' \<Rightarrow>
                    (case vecPut selGammaIndices (globalIndex v0 - v0TableOffset) passGamma of
                       Inl e \<Rightarrow> Inl e
                     | Inr selGammaIndices' \<Rightarrow> Inr (selK0ShortIndices', selGammaIndices')))))"

section \<open>Pairing\<close>

text \<open>\<^verbatim>\<open>checkTrackIndices(k0short, gamma)\<close>\<close>

definition checkTrackIndices :: "V0 \<Rightarrow> V0 \<Rightarrow> bool" where
  "checkTrackIndices k0short gamma =
     (if posTrackExtraId k0short = posTrackExtraId gamma
         \<or> posTrackExtraId k0short = negTrackExtraId gamma then False
      else if negTrackExtraId k0short = posTrackExtraId gamma
         \<or> negTrackExtraId k0short = negTrackExtraId gamma then False
      else True)"

text \<open>
  The V0s of one collision: the rows of the grouped table and its \<^verbatim>\<open>offset()\<close> in the
  whole table.
\<close>

record V0s =
  offset :: int
  rows :: "V0 list"

text \<open>
  The second loop of \<^verbatim>\<open>buildV0V0Pairs\<close>, for one \<open>k0short\<close>: the pairs for which
  \<^verbatim>\<open>analyseV0PairCandidate\<close> is called, in the order of the calls.
\<close>

fun gammaLoop :: "int \<Rightarrow> bool list \<Rightarrow> V0 \<Rightarrow> V0 list \<Rightarrow> fault + (V0 \<times> V0) list" where
  "gammaLoop off selGammaIndices k0short [] = Inr []"
| "gammaLoop off selGammaIndices k0short (gamma # gammas) =
     (case vecAt selGammaIndices (globalIndex gamma - off) of
        Inl e \<Rightarrow> Inl e
      | Inr sel \<Rightarrow>
          (if \<not> sel then gammaLoop off selGammaIndices k0short gammas
           else if globalIndex k0short = globalIndex gamma then gammaLoop off selGammaIndices k0short gammas
           else if \<not> checkTrackIndices k0short gamma then gammaLoop off selGammaIndices k0short gammas
           else (case gammaLoop off selGammaIndices k0short gammas of
                   Inl e \<Rightarrow> Inl e
                 | Inr ps \<Rightarrow> Inr ((k0short, gamma) # ps))))"

text \<open>The first loop of \<^verbatim>\<open>buildV0V0Pairs\<close>; \<open>fullV0s\<close> is the table the second loop runs over.\<close>

fun v0Loop :: "int \<Rightarrow> bool list \<Rightarrow> bool list \<Rightarrow> V0 list \<Rightarrow> V0 list \<Rightarrow> fault + (V0 \<times> V0) list" where
  "v0Loop off selK0ShortIndices selGammaIndices fullV0s [] = Inr []"
| "v0Loop off selK0ShortIndices selGammaIndices fullV0s (k0short # k0shorts) =
     (case vecAt selK0ShortIndices (globalIndex k0short - off) of
        Inl e \<Rightarrow> Inl e
      | Inr sel \<Rightarrow>
          (if \<not> sel then v0Loop off selK0ShortIndices selGammaIndices fullV0s k0shorts
           else (case gammaLoop off selGammaIndices k0short fullV0s of
                   Inl e \<Rightarrow> Inl e
                 | Inr ps \<Rightarrow>
                     (case v0Loop off selK0ShortIndices selGammaIndices fullV0s k0shorts of
                        Inl e \<Rightarrow> Inl e
                      | Inr qs \<Rightarrow> Inr (ps @ qs)))))"

text \<open>
  The pairs that \<^verbatim>\<open>buildV0V0Pairs\<close> forms: the arguments \<open>(k0short, gamma)\<close> of its calls
  of \<^verbatim>\<open>analyseV0PairCandidate\<close>, in order.
\<close>

definition formedPairs :: "V0s \<Rightarrow> bool list \<Rightarrow> bool list \<Rightarrow> fault + (V0 \<times> V0) list" where
  "formedPairs fullV0s selK0ShortIndices selGammaIndices =
     v0Loop (offset fullV0s) selK0ShortIndices selGammaIndices (rows fullV0s) (rows fullV0s)"

section \<open>Pair kinematics and reporting\<close>

text \<open>
  \<^verbatim>\<open>RecoDecay::pt\<close>, \<^verbatim>\<open>RecoDecay::m\<close> and \<^verbatim>\<open>RecoDecay::y\<close> and the PDG database
  service \<^verbatim>\<open>pdgDB->Mass\<close> are defined outside the two source files: they are
  parameters of the model.
\<close>

record RecoDecay =
  RecoDecay_pt :: "fp \<Rightarrow> fp \<Rightarrow> fp"
  RecoDecay_m :: "fp list list \<Rightarrow> fp list \<Rightarrow> fp"
  RecoDecay_y :: "fp list \<Rightarrow> fp \<Rightarrow> fp"
  pdgDB_Mass :: "int \<Rightarrow> fp"

text \<open>
  What reaches the histogram registry: a fill of a three-dimensional histogram, or
  the call \<^verbatim>\<open>fillQAplot(collision, k0short, gamma, afterSel)\<close>, which fills the QA
  histograms from the fields of its two candidates (named here by their global indices).
\<close>

datatype Fill = Fill3 string fp fp fp | QAplot int int int

text \<open>The locals \<^verbatim>\<open>pt\<close>, \<^verbatim>\<open>invmass\<close> and \<^verbatim>\<open>rapidity\<close> of \<^verbatim>\<open>analyseV0PairCandidate\<close>.\<close>

definition pairPt :: "RecoDecay \<Rightarrow> V0 \<Rightarrow> V0 \<Rightarrow> fp" where
  "pairPt R k0short gamma =
     RecoDecay_pt R (fadd round32 (px k0short) (px gamma)) (fadd round32 (py k0short) (py gamma))"

definition pairInvMass :: "Constants \<Rightarrow> RecoDecay \<Rightarrow> V0 \<Rightarrow> V0 \<Rightarrow> fp" where
  "pairInvMass K R k0short gamma =
     RecoDecay_m R [[px k0short, py k0short, pz k0short], [px gamma, py gamma, pz gamma]]
                   [MassKaonNeutral K, MassGamma K]"

definition pairRapidity :: "Constants \<Rightarrow> RecoDecay \<Rightarrow> V0 \<Rightarrow> V0 \<Rightarrow> fp" where
  "pairRapidity K R k0short gamma =
     RecoDecay_y R [fadd round32 (px k0short) (px gamma), fadd round32 (py k0short) (py gamma), fadd round32 (pz k0short) (pz gamma)]
                   (pairInvMass K R k0short gamma)"

text \<open>The fills after the MC block: the main histogram, the gap-side one and the QA plots.\<close>

definition mainFills :: "KstarToK0Gamma \<Rightarrow> Constants \<Rightarrow> RecoDecay \<Rightarrow> V0 \<Rightarrow> V0 \<Rightarrow> fp \<Rightarrow> int \<Rightarrow> Fill list" where
  "mainFills task K R k0short gamma centrality gapSide =
     [Fill3 ''K0sGamma/h3dMassK0sGamma'' centrality (pairPt R k0short gamma) (pairInvMass K R k0short gamma)]
     @ (if \<not> doPPAnalysis task then
          [Fill3 (if gapSide = 0 then ''K0sGamma/h3dMassK0sGammaSGA''
                  else if gapSide = 1 then ''K0sGamma/h3dMassK0sGammaSGC''
                  else if gapSide = 2 then ''K0sGamma/h3dMassK0sGammaDG''
                  else ''K0sGamma/h3dMassK0sGammaHadronic'')
                 centrality (pairPt R k0short gamma) (pairInvMass K R k0short gamma)]
        else [])
     @ [QAplot (globalIndex k0short) (globalIndex gamma) 1]"

text \<open>
  \<^verbatim>\<open>analyseV0PairCandidate\<close>: the fills it makes, in order; the empty list where it
  returns before any fill. The MC block is compiled only for a candidate type with MC
  information (\<open>v0MCCore k0short\<close> is not \<open>None\<close>); both candidates are of that one
  type, so a \<open>gamma\<close> without an MC row beside a \<open>k0short\<close> with one is not a state of
  the program and is given no fill.
\<close>

definition analyseV0PairCandidate ::
  "KstarToK0Gamma \<Rightarrow> Constants \<Rightarrow> RecoDecay \<Rightarrow> Collision \<Rightarrow> V0 \<Rightarrow> V0 \<Rightarrow> fp \<Rightarrow> int \<Rightarrow> Fill list" where
  "analyseV0PairCandidate task K R collision k0short gamma centrality gapSide =
     (if \<not> doMCAssociation task \<and> fgt (fabs (pairRapidity K R k0short gamma)) (rapidityCut task) then []
      else if doMCAssociation task then
        (case v0MCCore k0short of
           None \<Rightarrow> mainFills task K R k0short gamma centrality gapSide
         | Some k0shortMC \<Rightarrow>
             (case v0MCCore gamma of
                None \<Rightarrow> []
              | Some gammaMC \<Rightarrow>
                  (if pdgCodeMother k0shortMC \<noteq> pdgCodeMother gammaMC then []
                   else
                     (let ptmc = RecoDecay_pt R (fadd round32 (pxMC k0shortMC) (pxMC gammaMC))
                                                (fadd round32 (pyMC k0shortMC) (pyMC gammaMC));
                          rapiditymc = RecoDecay_y R [fadd round32 (pxMC k0shortMC) (pxMC gammaMC),
                                                      fadd round32 (pyMC k0shortMC) (pyMC gammaMC),
                                                      fadd round32 (pzMC k0shortMC) (pzMC gammaMC)]
                                                     (pdgDB_Mass R (pdgCodeMother k0shortMC))
                      in if fgt (fabs rapiditymc) (rapidityCut task) then []
                         else (if pdgCodeMother k0shortMC = 313
                                  \<and> pdgCodeMother k0shortMC = pdgCodeMother gammaMC
                               then [Fill3 ''K0sGamma/h3dInvMassTrueK0Star892'' centrality ptmc
                                       (pairInvMass K R k0short gamma)]
                               else [])
                              @ mainFills task K R k0short gamma centrality gapSide))))
      else mainFills task K R k0short gamma centrality gapSide)"

text \<open>\<^verbatim>\<open>buildV0V0Pairs\<close>: the fills of all the pairs it forms.\<close>

definition buildV0V0Pairs ::
  "KstarToK0Gamma \<Rightarrow> Constants \<Rightarrow> RecoDecay \<Rightarrow> Collision \<Rightarrow> V0s \<Rightarrow> bool list \<Rightarrow> bool list \<Rightarrow> fp \<Rightarrow> int
     \<Rightarrow> fault + Fill list" where
  "buildV0V0Pairs task K R collision fullV0s selK0ShortIndices selGammaIndices centrality gapSide =
     (case formedPairs fullV0s selK0ShortIndices selGammaIndices of
        Inl e \<Rightarrow> Inl e
      | Inr ps \<Rightarrow>
          Inr (concat (map (\<lambda>(k0short, gamma).
                 analyseV0PairCandidate task K R collision k0short gamma centrality gapSide) ps)))"

section \<open>The default configuration and sample inputs\<close>

text \<open>
  The default values of the configurables, as the source declares them. A configurable
  of type \<^verbatim>\<open>float\<close> holds the binary32 value nearest to its decimal literal:
  \<open>13421773 / 2\<^sup>2\<^sup>4\<close> for 0.8, \<open>4068475 / 2\<^sup>2\<^sup>2\<close> for 0.97, \<open>13421773 / 2\<^sup>2\<^sup>8\<close> for 0.05,
  \<open>5033165 / 2\<^sup>2\<^sup>2\<close> for 1.2 and \<open>8589935 / 2\<^sup>3\<^sup>0\<close> for 0.008.
\<close>

definition defaultV0Selections :: V0Selections where
  "defaultV0Selections =
     \<lparr> v0TypeSelection = 1, daughterEtaCut = Fin (13421773 / 2 ^ 24), v0cospa = Fin (4068475 / 2 ^ 22),
       dcav0dau = Fin 1, dcav0topv = Fin (13421773 / 2 ^ 28), dcapostopv = Fin (13421773 / 2 ^ 28),
       dcanegtopv = Fin (13421773 / 2 ^ 28), v0radius = Fin (5033165 / 2 ^ 22), v0radiusMax = Fin 100000,
       armPodCut = Fin 5, minTPCrows = 70, minITSclusters = -1, skipTPConly = False,
       requirePosITSonly = False, requireNegITSonly = False,
       rejectPosITSafterburner = False, rejectNegITSafterburner = False,
       tpcPidNsigmaCut = Fin 5,
       lifetimeCut = Fin 20, v0MassWindow = Fin (8589935 / 2 ^ 30), compMassRejection = Fin (8589935 / 2 ^ 30),
       tofPidNsigmaCutLaPr = Fin 1000000, tofPidNsigmaCutLaPi = Fin 1000000,
       tofPidNsigmaCutK0Pi = Fin 1000000,
       maxDeltaTimeProton = Fin 1000000000, maxDeltaTimePion = Fin 1000000000 \<rparr>"

definition defaultPhotonSelections :: PhotonSelections where
  "defaultPhotonSelections =
     \<lparr> v0TypeSelection = 1, daughterEtaCut = Fin (13421773 / 2 ^ 24), v0cospa = Fin (4068475 / 2 ^ 22),
       dcav0dau = Fin 1, dcav0topv = Fin (13421773 / 2 ^ 28), dcapostopv = Fin (13421773 / 2 ^ 28),
       dcanegtopv = Fin (13421773 / 2 ^ 28), v0radius = Fin (5033165 / 2 ^ 22), v0radiusMax = Fin 100000,
       armPodCut = Fin 5, minTPCrows = 70, minITSclusters = -1, skipTPConly = False,
       requirePosITSonly = False, requireNegITSonly = False,
       rejectPosITSafterburner = False, rejectNegITSafterburner = False,
       tpcPidNsigmaCut = Fin 5,
       photonZMax = Fin 240, photonMassMax = Fin (8589935 / 2 ^ 30) \<rparr>"

definition defaultMlConfigurations :: MlConfigurations where
  "defaultMlConfigurations =
     \<lparr> useK0ShortScores = False, useGammaScores = False, calculateK0ShortScores = False,
       calculateGammaScores = False, thresholdK0Short = Fin (- 1), thresholdGamma = Fin (- 1) \<rparr>"

definition defaultTask :: KstarToK0Gamma where
  "defaultTask =
     \<lparr> doPPAnalysis = True, doMCAssociation = True, rapidityCut = Fin (1 / 2),
       v0Selections = defaultV0Selections, photonSelections = defaultPhotonSelections,
       mlConfigurations = defaultMlConfigurations \<rparr>"

text \<open>
  A choice of the constants for the examples: the TPC bit and the particle masses in
  GeV, as the \<^verbatim>\<open>double\<close> values nearest to 0.497611 (K0-short and neutral kaon) and
  to 1.115683 (Lambda).
\<close>

definition sampleConstants :: Constants where
  "sampleConstants =
     \<lparr> MassK0Short = Fin (560260178543865 / 2 ^ 50), MassLambda0 = Fin (5024589543063597 / 2 ^ 52),
       MassKaonNeutral = Fin (560260178543865 / 2 ^ 50), MassGamma = Fin 0, TPC = 2 \<rparr>"

definition sampleTrack :: DauTrack where
  "sampleTrack =
     \<lparr> itsChi2PerNcl = Fin 1, itsNCls = 4, tpcCrossedRows = 100, detectorMap = 3,
       tpcNSigmaEl = Fin (1 / 2), tpcNSigmaPi = Fin (1 / 2) \<rparr>"

text \<open>
  A candidate of a type without MC information that passes every cut of both
  categories under the default configuration.
\<close>

definition sampleV0 :: V0 where
  "sampleV0 =
     \<lparr> globalIndex = 0, posTrackExtraId = 0, negTrackExtraId = 1,
       posTrackExtra = sampleTrack, negTrackExtra = sampleTrack, v0MCCore = None,
       v0Type = 1, px = Fin 1, py = Fin 0, pz = Fin 0, z = Fin 10,
       negativeeta = Fin (1 / 2), positiveeta = Fin (- (1 / 4)),
       v0radius = Fin 2, dcapostopv = Fin (1 / 16), dcanegtopv = Fin (- (1 / 32)),
       v0cosPA = Fin (63 / 64), dcaV0daughters = Fin (1 / 2), dcav0topv = Fin (1 / 16),
       mGamma = Fin (1 / 256), mK0Short = Fin (1 / 2), mLambda = Fin (5 / 4),
       posTOFDeltaTK0Pi = Fin 0, negTOFDeltaTK0Pi = Fin 0,
       tofNSigmaK0PiPlus = Fin 0, tofNSigmaK0PiMinus = Fin 0,
       distovertotmom = (\<lambda>x y w. Fin 4),
       qtarm = Fin (1 / 8), alpha = Fin (1 / 4),
       k0ShortBDTScore = Fin (1 / 2), antiLambdaBDTScore = Fin (1 / 2) \<rparr>"

definition sampleCollision :: Collision where
  "sampleCollision = \<lparr> posX = Fin 0, posY = Fin 0, posZ = Fin 0 \<rparr>"

text \<open>
  A second candidate, with daughters of its own, and stand-ins for the external
  parameters: a kinematics that gives every pair the rapidity 2, and ONNX models that
  return no probability.
\<close>

definition sampleGamma :: V0 where
  "sampleGamma = sampleV0\<lparr>globalIndex := 1, posTrackExtraId := 2, negTrackExtraId := 3\<rparr>"

definition sampleRecoDecay :: RecoDecay where
  "sampleRecoDecay =
     \<lparr> RecoDecay_pt = (\<lambda>a b. Fin 1), RecoDecay_m = (\<lambda>ps ms. Fin (57 / 64)),
       RecoDecay_y = (\<lambda>p mass. Fin 2), pdgDB_Mass = (\<lambda>code. Fin (57 / 64)) \<rparr>"

definition sampleModels :: OnnxModels where
  "sampleModels = \<lparr> mlCustomModelK0Short = (\<lambda>features. []), mlCustomModelGamma = (\<lambda>features. []) \<rparr>"

text \<open>
  The default configuration with the photon-like decision taken from the scores of the
  derived data, at a given threshold.
\<close>

definition gammaScoreTask :: "fp \<Rightarrow> KstarToK0Gamma" where
  "gammaScoreTask threshold =
     defaultTask\<lparr>mlConfigurations :=
       defaultMlConfigurations\<lparr>useGammaScores := True, thresholdGamma := threshold\<rparr>\<rparr>"

text \<open>The default configuration with a small positive Armenteros-Podolanski slope in both categories.\<close>

definition smallSlopeTask :: KstarToK0Gamma where
  "smallSlopeTask =
     defaultTask\<lparr>v0Selections := defaultV0Selections\<lparr>armPodCut := Fin (1 / 16384)\<rparr>,
                 photonSelections := defaultPhotonSelections\<lparr>armPodCut := Fin (1 / 16384)\<rparr>\<rparr>"

text \<open>
  A mass window with a \<^verbatim>\<open>float\<close> candidate mass exactly on its edge. With the masses of
  \<open>sampleConstants\<close>: the \<^verbatim>\<open>float\<close> nearest to the K0-short mass, \<open>8348527 / 2\<^sup>2\<^sup>4\<close>, lies
  \<open>15500537 / 2\<^sup>5\<^sup>0\<close> below the \<^verbatim>\<open>double\<close> mass, and that difference is a \<^verbatim>\<open>float\<close>
  value, taken as the window. With a K0-short mass of \<open>1/2\<close>: a window of \<open>1/128\<close> and
  a candidate mass of \<open>65/128\<close>.
\<close>

definition edgeTask :: KstarToK0Gamma where
  "edgeTask = defaultTask\<lparr>v0Selections := defaultV0Selections\<lparr>v0MassWindow := Fin (15500537 / 2 ^ 50)\<rparr>\<rparr>"

definition edgeV0 :: V0 where
  "edgeV0 = sampleV0\<lparr>mK0Short := Fin (8348527 / 2 ^ 24)\<rparr>"

definition halfConstants :: Constants where
  "halfConstants = sampleConstants\<lparr>MassK0Short := Fin (1 / 2)\<rparr>"

definition halfEdgeTask :: KstarToK0Gamma where
  "halfEdgeTask = defaultTask\<lparr>v0Selections := defaultV0Selections\<lparr>v0MassWindow := Fin (1 / 128)\<rparr>\<rparr>"

definition halfEdgeV0 :: V0 where
  "halfEdgeV0 = sampleV0\<lparr>mK0Short := Fin (65 / 128)\<rparr>"

section \<open>Grouped tables and the scenarios of the pairing\<close>

text \<open>
  In the framework the global index of a row is its position in the whole table, and
  the rows of one collision are a contiguous slice that starts at \<open>offset\<close>: row \<open>i\<close> of
  the slice has the global index \<open>offset + i\<close>.
\<close>

definition localIndexed :: "V0s \<Rightarrow> bool" where
  "localIndexed fullV0s =
     (map globalIndex (rows fullV0s)
        = map (\<lambda>i. offset fullV0s + int i) [0..<length (rows fullV0s)])"

text \<open>The sample candidate at a given global index and with given daughter tracks.\<close>

definition candidateAt :: "int \<Rightarrow> int \<Rightarrow> int \<Rightarrow> V0" where
  "candidateAt i p n = sampleV0\<lparr>globalIndex := i, posTrackExtraId := p, negTrackExtraId := n\<rparr>"

text \<open>
  Three candidates of a collision whose slice starts at 10, and two masks: they mark
  the first as K0-short-like only, the second as photon-like only, the third as both.
  In \<open>sharingV0s\<close> the third candidate has its positive daughter in common with the
  first; in \<open>disjointV0s\<close> no two candidates have a daughter in common.
\<close>

definition sharingV0s :: V0s where
  "sharingV0s = \<lparr> offset = 10, rows = [candidateAt 10 0 1, candidateAt 11 2 3, candidateAt 12 0 4] \<rparr>"

definition disjointV0s :: V0s where
  "disjointV0s = \<lparr> offset = 10, rows = [candidateAt 10 0 1, candidateAt 11 2 3, candidateAt 12 4 5] \<rparr>"

definition maskK0Short :: "bool list" where
  "maskK0Short = [True, False, True]"

definition maskGamma :: "bool list" where
  "maskGamma = [False, True, True]"

section \<open>Facts about the floating-point comparisons\<close>

lemma flt_NaN_right [simp]: "flt a NaN = False"
  by (cases a) simp_all

lemma fgt_NaN_left [simp]: "fgt NaN b = False"
  by (simp add: fgt_def)

lemma fgt_NaN_right [simp]: "fgt a NaN = False"
  by (simp add: fgt_def)

lemma flt_MInf_right [simp]: "flt a MInf = False"
  by (cases a) simp_all

lemma fgt_PInf_right [simp]: "fgt a PInf = False"
  by (cases a) (simp_all add: fgt_def)

lemma fgt_MInf_left [simp]: "fgt MInf b = False"
  by (simp add: fgt_def)

lemma flt_irrefl [simp]: "flt a a = False"
  by (cases a) simp_all

lemma fgt_irrefl [simp]: "fgt a a = False"
  by (simp add: fgt_def)

lemma flt_asym: "flt a b \<Longrightarrow> \<not> flt b a"
  by (cases a; cases b) simp_all

lemma fgt_not_flt: "fgt a b \<Longrightarrow> \<not> flt a b"
  by (simp add: fgt_def flt_asym)

lemma fgt_Fin [simp]: "fgt (Fin x) (Fin y) = (y < x)"
  by (simp add: fgt_def)

lemma fmul_NaN_right [simp]: "fmul rnd a NaN = NaN"
  by (cases a) simp_all

lemma fadd_NaN_right [simp]: "fadd rnd a NaN = NaN"
  by (cases a) simp_all

lemma fsub_NaN_left [simp]: "fsub rnd NaN b = NaN"
  by (simp add: fsub_def)

lemma fsub_NaN_right [simp]: "fsub rnd a NaN = NaN"
  by (simp add: fsub_def)

lemma fsub_Fin [simp]: "fsub rnd (Fin x) (Fin y) = rnd (x - y)"
  by (simp add: fsub_def)

lemma zero_below_literal_1e_4 [simp]: "fgt (Fin 0) literal_1e_4 = False"
  by (simp add: literal_1e_4_def)

section \<open>Facts about rounding\<close>

lemma roundTiesToEven_of_int [simp]: "roundTiesToEven (of_int j) = j"
  by (simp add: roundTiesToEven_def)

text \<open>A value of the format is its own rounding.\<close>

lemma roundFormat_exact:
  assumes int: "x * 2 ^ k \<in> \<int>" and small: "\<bar>x\<bar> * 2 ^ k < 2 ^ p" and ks: "k \<le> s" and pe: "p \<le> emax"
  shows "roundFormat p s emax x = Fin x"
proof -
  from int have "\<bar>x * 2 ^ k\<bar> \<in> \<int>" by simp
  then obtain n :: int where n: "\<bar>x\<bar> * 2 ^ k = of_int n"
    by (auto simp add: abs_mult elim: Ints_cases)
  have n0: "0 \<le> n"
  proof -
    have "(0::real) \<le> \<bar>x\<bar> * 2 ^ k" by simp
    with n show ?thesis by simp
  qed
  have np: "n < 2 ^ p"
  proof -
    from small n have "(of_int n :: real) < of_int (2 ^ p)" by simp
    then show ?thesis by (simp only: of_int_less_iff)
  qed
  have absx: "\<bar>x\<bar> = of_int n / 2 ^ k"
    using n by (simp add: field_simps)
  define d where "d = s - k"
  have s: "s = k + d" using ks by (simp add: d_def)
  have y: "\<bar>x\<bar> * 2 ^ s = of_int (n * 2 ^ d)"
    by (simp add: absx s power_add)
  define c where "c = nat (bitlen (n * 2 ^ d) - int p)"
  have cd: "c \<le> d"
  proof (cases "n = 0")
    case True
    then show ?thesis by (simp add: c_def)
  next
    case False
    with n0 have pos: "0 < n" by simp
    then have bl: "bitlen (n * 2 ^ d) = bitlen n + int d"
      by (rule bitlen_pow2)
    have "bitlen n \<le> int p"
    proof (rule ccontr)
      assume "\<not> bitlen n \<le> int p"
      then have "int p \<le> bitlen n - 1" by simp
      then have "p \<le> nat (bitlen n - 1)" by simp
      then have "(2::int) ^ p \<le> 2 ^ nat (bitlen n - 1)"
        by (simp add: power_increasing)
      also have "\<dots> \<le> n" using bitlen_bounds [OF pos] by simp
      finally show False using np by simp
    qed
    with bl show ?thesis by (simp add: c_def)
  qed
  define e where "e = d - c"
  have d: "d = c + e" using cd by (simp add: e_def)
  have quot: "\<bar>x\<bar> * 2 ^ s / 2 ^ c = of_int (n * 2 ^ e)"
    by (simp add: y d power_add)
  have r: "of_int (roundTiesToEven (\<bar>x\<bar> * 2 ^ s / 2 ^ c)) * 2 ^ c / 2 ^ s = \<bar>x\<bar>"
    unfolding quot roundTiesToEven_of_int by (simp add: absx s d power_add)
  have "\<bar>x\<bar> \<le> \<bar>x\<bar> * 2 ^ k"
    by (simp add: mult_le_cancel_left1)
  also note small
  also have "(2::real) ^ p \<le> 2 ^ emax"
    using pe by (simp add: power_increasing)
  finally have bound: "\<not> 2 ^ emax \<le> \<bar>x\<bar>" by simp
  have fl: "\<lfloor>\<bar>x\<bar> * 2 ^ s\<rfloor> = n * 2 ^ d"
    unfolding y by (rule floor_of_int)
  show ?thesis
    unfolding roundFormat_def Let_def fl c_def [symmetric] r
    using bound by auto
qed

lemma round32_exact:
  "x * 2 ^ k \<in> \<int> \<Longrightarrow> \<bar>x\<bar> * 2 ^ k < 2 ^ 24 \<Longrightarrow> k \<le> 149 \<Longrightarrow> round32 x = Fin x"
  unfolding round32_def by (rule roundFormat_exact) simp_all

lemma round64_exact:
  "x * 2 ^ k \<in> \<int> \<Longrightarrow> \<bar>x\<bar> * 2 ^ k < 2 ^ 53 \<Longrightarrow> k \<le> 1074 \<Longrightarrow> round64 x = Fin x"
  unfolding round64_def by (rule roundFormat_exact) simp_all

text \<open>
  The values below 1 with 24 binary digits after the point are \<^verbatim>\<open>float\<close> values, and
  the values below 2 with 52 are \<^verbatim>\<open>double\<close> values: the cases that the examples need.
\<close>

lemmas round_exact = round32_exact [where k = 24] round64_exact [where k = 52]

text \<open>The number of bits of an integer between two consecutive powers of two.\<close>

lemma bitlen_eqI:
  assumes lo: "2 ^ j \<le> n" and hi: "n < 2 ^ Suc j"
  shows "bitlen n = int (Suc j)"
proof -
  have pos: "0 < n"
  proof -
    have "(0::int) < 2 ^ j" by simp
    with lo show ?thesis by linarith
  qed
  note b = bitlen_bounds [OF pos]
  have "\<not> bitlen n \<le> int j"
  proof
    assume "bitlen n \<le> int j"
    then have "nat (bitlen n) \<le> j" by simp
    then have "(2::int) ^ nat (bitlen n) \<le> 2 ^ j" by (simp add: power_increasing)
    with b lo show False by linarith
  qed
  moreover have "\<not> int (Suc j) < bitlen n"
  proof
    assume "int (Suc j) < bitlen n"
    then have "Suc j \<le> nat (bitlen n - 1)" by simp
    then have "(2::int) ^ Suc j \<le> 2 ^ nat (bitlen n - 1)" by (simp only: power_increasing one_le_numeral)
    with b hi show False by linarith
  qed
  ultimately show ?thesis by simp
qed

text \<open>
  Rounding a value of the normal range: with \<open>k\<close> chosen so that \<open>|x| \<cdot> 2\<^sup>k\<close> has \<open>p\<close>
  bits before the point, the result is \<open>|x| \<cdot> 2\<^sup>k\<close> rounded to an integer, scaled back.
\<close>

lemma roundFormat_normal:
  assumes lo: "2 ^ j \<le> \<bar>x\<bar> * 2 ^ k" and hi: "\<bar>x\<bar> * 2 ^ k < 2 ^ Suc j" and ks: "k \<le> s"
      and pe: "Suc j < emax"
  shows "roundFormat (Suc j) s emax x
           = Fin ((if x < 0 then - 1 else 1) * of_int (roundTiesToEven (\<bar>x\<bar> * 2 ^ k)) / 2 ^ k)"
proof -
  define d where "d = s - k"
  have s: "s = k + d" using ks by (simp add: d_def)
  have y: "\<bar>x\<bar> * 2 ^ s = \<bar>x\<bar> * 2 ^ k * 2 ^ d"
    by (simp add: s power_add)
  have "(2::real) ^ (j + d) \<le> \<bar>x\<bar> * 2 ^ s"
    unfolding y power_add using lo by (simp add: mult_right_mono)
  then have "of_int (2 ^ (j + d)) \<le> \<bar>x\<bar> * 2 ^ s" by simp
  then have flo: "2 ^ (j + d) \<le> \<lfloor>\<bar>x\<bar> * 2 ^ s\<rfloor>"
    by (simp only: le_floor_iff)
  have "\<bar>x\<bar> * 2 ^ s < 2 ^ Suc (j + d)"
  proof -
    have "\<bar>x\<bar> * 2 ^ k * 2 ^ d < 2 ^ Suc j * 2 ^ d"
      using hi by (simp add: mult_strict_right_mono)
    then show ?thesis by (simp add: y power_add)
  qed
  then have "\<bar>x\<bar> * 2 ^ s < of_int (2 ^ Suc (j + d))" by simp
  then have fhi: "\<lfloor>\<bar>x\<bar> * 2 ^ s\<rfloor> < 2 ^ Suc (j + d)"
    by (simp only: floor_less_iff)
  have bl: "bitlen \<lfloor>\<bar>x\<bar> * 2 ^ s\<rfloor> = int (Suc (j + d))"
    by (rule bitlen_eqI [OF flo fhi])
  have q: "nat (int (Suc (j + d)) - int (Suc j)) = d" by simp
  have quot: "\<bar>x\<bar> * 2 ^ s / 2 ^ d = \<bar>x\<bar> * 2 ^ k"
    by (simp add: y)
  have scaled: "of_int n * 2 ^ d / 2 ^ s = (of_int n :: real) / 2 ^ k" for n :: int
    by (simp add: s power_add)
  have "roundTiesToEven (\<bar>x\<bar> * 2 ^ k) \<le> 2 ^ Suc j"
  proof -
    have "\<lfloor>\<bar>x\<bar> * 2 ^ k\<rfloor> < 2 ^ Suc j"
    proof -
      from hi have "\<bar>x\<bar> * 2 ^ k < of_int (2 ^ Suc j)" by simp
      then show ?thesis by (simp only: floor_less_iff)
    qed
    then show ?thesis
      by (simp add: roundTiesToEven_def Let_def)
  qed
  then have "(of_int (roundTiesToEven (\<bar>x\<bar> * 2 ^ k)) :: real) \<le> of_int (2 ^ Suc j)"
    by (simp only: of_int_le_iff)
  then have "(of_int (roundTiesToEven (\<bar>x\<bar> * 2 ^ k)) :: real) / 2 ^ k \<le> 2 ^ Suc j / 2 ^ k"
    by (simp add: divide_right_mono)
  also have "(2::real) ^ Suc j / 2 ^ k \<le> 2 ^ Suc j"
    by (simp add: divide_le_eq_1_pos field_simps)
  also have "(2::real) ^ Suc j < 2 ^ emax"
    using pe by (simp only: power_strict_increasing_iff one_less_numeral_iff semiring_norm)
  finally have bound: "\<not> 2 ^ emax \<le> (of_int (roundTiesToEven (\<bar>x\<bar> * 2 ^ k)) :: real) / 2 ^ k"
    by simp
  show ?thesis
    unfolding roundFormat_def Let_def bl q quot scaled
    using bound by auto
qed

text \<open>The literal \<^verbatim>\<open>1e-4\<close> of the Armenteros-Podolanski guard.\<close>

lemma literal_1e_4_nearest: "round64 (1 / 10000) = literal_1e_4"
proof -
  have "roundFormat (Suc 52) 1074 1024 (1 / 10000)
          = Fin ((if (1 / 10000 :: real) < 0 then - 1 else 1)
                   * of_int (roundTiesToEven (\<bar>1 / 10000\<bar> * 2 ^ 66)) / 2 ^ 66)"
    by (rule roundFormat_normal) simp_all
  moreover have "roundTiesToEven (\<bar>1 / 10000\<bar> * 2 ^ 66) = 7378697629483821"
    by (simp add: roundTiesToEven_def)
  ultimately show ?thesis
    by (simp add: round64_def literal_1e_4_def)
qed

lemma round32_normal:
  assumes "2 ^ 23 \<le> \<bar>x\<bar> * 2 ^ k" and "\<bar>x\<bar> * 2 ^ k < 2 ^ 24" and "k \<le> 149"
  shows "round32 x = Fin ((if x < 0 then - 1 else 1) * of_int (roundTiesToEven (\<bar>x\<bar> * 2 ^ k)) / 2 ^ k)"
  using roundFormat_normal [of 23 x k 149 128] assms by (simp add: round32_def)

text \<open>The defaults are the \<^verbatim>\<open>float\<close> values nearest to their decimal literals.\<close>

lemma default_literals:
  "round32 (8 / 10) = Fin (13421773 / 2 ^ 24)"
  "round32 (97 / 100) = Fin (4068475 / 2 ^ 22)"
  "round32 (5 / 100) = Fin (13421773 / 2 ^ 28)"
  "round32 (12 / 10) = Fin (5033165 / 2 ^ 22)"
  "round32 (8 / 1000) = Fin (8589935 / 2 ^ 30)"
  by (simp_all add: round32_normal [where k = 24] round32_normal [where k = 28]
      round32_normal [where k = 23] round32_normal [where k = 30] roundTiesToEven_def)

text \<open>A \<^verbatim>\<open>float\<close> product that is not exact: it is rounded up to the next \<^verbatim>\<open>float\<close>.\<close>

lemma float_product_rounds:
  "fmul round32 (Fin (6710887 / 2 ^ 26)) (Fin 5) = Fin (8388609 / 2 ^ 24)"
  by (simp add: round32_normal [where k = 24] roundTiesToEven_def)

section \<open>The selection as a conjunction of its cuts\<close>

text \<open>
  A candidate is selected exactly when none of the rejecting comparisons of its
  category holds: the order of the cuts does not change the result.
\<close>

lemma isV0Selected_K0_iff:
  "isV0Selected task K v0 collision False =
     (\<not> (fgt (fabs (negativeeta v0)) (daughterEtaCut (photonSelections task))
             \<or> fgt (fabs (positiveeta v0)) (daughterEtaCut (photonSelections task)))
      \<and> \<not> (v0TypeSelection (photonSelections task) > -1
             \<and> v0Type v0 \<noteq> v0TypeSelection (photonSelections task))
      \<and> \<not> flt (V0.v0radius v0) (Selections.v0radius (v0Selections task))
      \<and> \<not> fgt (V0.v0radius v0) (v0radiusMax (v0Selections task))
      \<and> \<not> flt (fabs (V0.dcapostopv v0)) (Selections.dcapostopv (v0Selections task))
      \<and> \<not> fgt (fabs (V0.dcanegtopv v0)) (Selections.dcanegtopv (v0Selections task))
      \<and> \<not> flt (v0cosPA v0) (v0cospa (v0Selections task))
      \<and> \<not> fgt (dcaV0daughters v0) (dcav0dau (v0Selections task))
      \<and> \<not> flt (V0.dcav0topv v0) (Selections.dcav0topv (v0Selections task))
      \<and> \<not> fgt (fabs (fsub round64 (mK0Short v0) (MassK0Short K))) (v0MassWindow (v0Selections task))
      \<and> \<not> flt (fabs (fsub round64 (mLambda v0) (MassLambda0 K))) (compMassRejection (v0Selections task))
      \<and> \<not> itsNCls (posTrackExtra v0) < minITSclusters (v0Selections task)
      \<and> \<not> itsNCls (negTrackExtra v0) < minITSclusters (v0Selections task)
      \<and> \<not> (rejectPosITSafterburner (v0Selections task)
             \<and> flt (itsChi2PerNcl (posTrackExtra v0)) (Fin 0))
      \<and> \<not> (rejectNegITSafterburner (v0Selections task)
             \<and> flt (itsChi2PerNcl (negTrackExtra v0)) (Fin 0))
      \<and> \<not> tpcCrossedRows (posTrackExtra v0) < minTPCrows (v0Selections task)
      \<and> \<not> tpcCrossedRows (negTrackExtra v0) < minTPCrows (v0Selections task)
      \<and> \<not> fgt (fabs (tpcNSigmaPi (posTrackExtra v0))) (tpcPidNsigmaCut (v0Selections task))
      \<and> \<not> fgt (fabs (tpcNSigmaPi (negTrackExtra v0))) (tpcPidNsigmaCut (v0Selections task))
      \<and> \<not> fgt (fabs (posTOFDeltaTK0Pi v0)) (maxDeltaTimePion (v0Selections task))
      \<and> \<not> fgt (fabs (negTOFDeltaTK0Pi v0)) (maxDeltaTimePion (v0Selections task))
      \<and> \<not> fgt (fabs (tofNSigmaK0PiPlus v0)) (tofPidNsigmaCutK0Pi (v0Selections task))
      \<and> \<not> fgt (fabs (tofNSigmaK0PiMinus v0)) (tofPidNsigmaCutK0Pi (v0Selections task))
      \<and> \<not> (requirePosITSonly (v0Selections task) \<and> tpcCrossedRows (posTrackExtra v0) > 0)
      \<and> \<not> (requireNegITSonly (v0Selections task) \<and> tpcCrossedRows (negTrackExtra v0) > 0)
      \<and> \<not> (skipTPConly (v0Selections task) \<and> detectorMap (posTrackExtra v0) = TPC K)
      \<and> \<not> (skipTPConly (v0Selections task) \<and> detectorMap (negTrackExtra v0) = TPC K)
      \<and> \<not> fgt (fmul round64 (distovertotmom v0 (posX collision) (posY collision) (posZ collision)) (MassK0Short K))
                   (lifetimeCut (v0Selections task))
      \<and> \<not> (fgt (armPodCut (v0Selections task)) literal_1e_4
             \<and> flt (fmul round32 (qtarm v0) (armPodCut (v0Selections task))) (fabs (alpha v0)))
      \<and> (doMCAssociation task \<longrightarrow>
            (\<forall>v0MC. v0MCCore v0 = Some v0MC \<longrightarrow>
               \<not> (pdgCode v0MC \<noteq> 310 \<or> pdgCodePositive v0MC \<noteq> 211 \<or> pdgCodeNegative v0MC \<noteq> -211))))"
  by (simp add: isV0Selected_def split: option.split)

lemma isV0Selected_photon_iff:
  "isV0Selected task K v0 collision True =
     (\<not> fgt (z v0) (photonZMax (photonSelections task))
      \<and> \<not> (fgt (fabs (negativeeta v0)) (daughterEtaCut (photonSelections task))
             \<or> fgt (fabs (positiveeta v0)) (daughterEtaCut (photonSelections task)))
      \<and> \<not> (v0TypeSelection (photonSelections task) > -1
             \<and> v0Type v0 \<noteq> v0TypeSelection (photonSelections task))
      \<and> \<not> flt (V0.v0radius v0) (Selections.v0radius (photonSelections task))
      \<and> \<not> fgt (V0.v0radius v0) (v0radiusMax (photonSelections task))
      \<and> \<not> flt (fabs (V0.dcapostopv v0)) (Selections.dcapostopv (photonSelections task))
      \<and> \<not> fgt (fabs (V0.dcanegtopv v0)) (Selections.dcanegtopv (photonSelections task))
      \<and> \<not> flt (v0cosPA v0) (v0cospa (photonSelections task))
      \<and> \<not> fgt (dcaV0daughters v0) (dcav0dau (photonSelections task))
      \<and> \<not> flt (V0.dcav0topv v0) (Selections.dcav0topv (photonSelections task))
      \<and> \<not> fgt (mGamma v0) (photonMassMax (photonSelections task))
      \<and> \<not> itsNCls (posTrackExtra v0) < minITSclusters (photonSelections task)
      \<and> \<not> itsNCls (negTrackExtra v0) < minITSclusters (photonSelections task)
      \<and> \<not> (rejectPosITSafterburner (photonSelections task)
             \<and> flt (itsChi2PerNcl (posTrackExtra v0)) (Fin 0))
      \<and> \<not> (rejectNegITSafterburner (photonSelections task)
             \<and> flt (itsChi2PerNcl (negTrackExtra v0)) (Fin 0))
      \<and> \<not> tpcCrossedRows (posTrackExtra v0) < minTPCrows (photonSelections task)
      \<and> \<not> tpcCrossedRows (negTrackExtra v0) < minTPCrows (photonSelections task)
      \<and> \<not> fgt (fabs (tpcNSigmaEl (posTrackExtra v0))) (tpcPidNsigmaCut (photonSelections task))
      \<and> \<not> fgt (fabs (tpcNSigmaEl (negTrackExtra v0))) (tpcPidNsigmaCut (photonSelections task))
      \<and> \<not> (requirePosITSonly (photonSelections task) \<and> tpcCrossedRows (posTrackExtra v0) > 0)
      \<and> \<not> (requireNegITSonly (photonSelections task) \<and> tpcCrossedRows (negTrackExtra v0) > 0)
      \<and> \<not> (skipTPConly (photonSelections task) \<and> detectorMap (posTrackExtra v0) = TPC K)
      \<and> \<not> (skipTPConly (photonSelections task) \<and> detectorMap (negTrackExtra v0) = TPC K)
      \<and> \<not> (fgt (armPodCut (photonSelections task)) literal_1e_4
             \<and> flt (fmul round32 (qtarm v0) (armPodCut (photonSelections task))) (fabs (alpha v0)))
      \<and> (doMCAssociation task \<longrightarrow>
            (\<forall>v0MC. v0MCCore v0 = Some v0MC \<longrightarrow>
               \<not> (pdgCode v0MC \<noteq> 22 \<or> pdgCodePositive v0MC \<noteq> 11 \<or> pdgCodeNegative v0MC \<noteq> -11))))"
  by (simp add: isV0Selected_def split: option.split)

text \<open>Unfolding the sample inputs and the default configuration.\<close>

lemmas sample_defs =
  defaultTask_def defaultV0Selections_def defaultPhotonSelections_def defaultMlConfigurations_def
  sampleConstants_def sampleV0_def sampleTrack_def sampleCollision_def literal_1e_4_def round_exact

lemma sampleV0_K0: "isV0Selected defaultTask sampleConstants sampleV0 sampleCollision False"
  by (simp add: isV0Selected_def sample_defs)

lemma sampleV0_photon: "isV0Selected defaultTask sampleConstants sampleV0 sampleCollision True"
  by (simp add: isV0Selected_def sample_defs)

section \<open>Which configuration the K0-short-like acceptance cuts read\<close>

text \<open>
  Claim C1 at a failing input. The two configurations differ only in the photon-like
  \<open>daughterEtaCut\<close> (0.5 against the default 0.8); the candidate is the sample
  candidate with a negative-daughter pseudorapidity of 0.625, inside the K0-short-like
  \<open>daughterEtaCut\<close> of 0.8. The K0-short-like classification rejects it under the
  first configuration and accepts it under the second: its acceptance cut compares
  against \<^verbatim>\<open>photonSelections.daughterEtaCut\<close>. In the same way a K0-short-like
  \<open>v0TypeSelection\<close> of -1 (no selection) does not switch the type cut off: a
  candidate of type 7 is rejected against the photon-like \<open>v0TypeSelection\<close> of 1.
\<close>

theorem k0_acceptance_reads_photon_configuration:
  "daughterEtaCut (v0Selections (defaultTask\<lparr>photonSelections := defaultPhotonSelections\<lparr>daughterEtaCut := Fin (1 / 2)\<rparr>\<rparr>))
     = Fin (13421773 / 2 ^ 24)
   \<and> \<not> fgt (fabs (negativeeta (sampleV0\<lparr>negativeeta := Fin (5 / 8)\<rparr>))) (Fin (13421773 / 2 ^ 24))
   \<and> \<not> fgt (fabs (positiveeta (sampleV0\<lparr>negativeeta := Fin (5 / 8)\<rparr>))) (Fin (13421773 / 2 ^ 24))
   \<and> \<not> isV0Selected (defaultTask\<lparr>photonSelections := defaultPhotonSelections\<lparr>daughterEtaCut := Fin (1 / 2)\<rparr>\<rparr>)
          sampleConstants (sampleV0\<lparr>negativeeta := Fin (5 / 8)\<rparr>) sampleCollision False
   \<and> isV0Selected defaultTask sampleConstants (sampleV0\<lparr>negativeeta := Fin (5 / 8)\<rparr>) sampleCollision False
   \<and> v0TypeSelection (v0Selections (defaultTask\<lparr>v0Selections := defaultV0Selections\<lparr>v0TypeSelection := - 1\<rparr>\<rparr>))
       = - 1
   \<and> \<not> isV0Selected (defaultTask\<lparr>v0Selections := defaultV0Selections\<lparr>v0TypeSelection := - 1\<rparr>\<rparr>)
          sampleConstants (sampleV0\<lparr>v0Type := 7\<rparr>) sampleCollision False"
  by (simp add: isV0Selected_def sample_defs)

text \<open>
  The two configurations agree on every K0-short-like configurable, and the
  K0-short-like classification of the one candidate differs between them.
\<close>

theorem k0_acceptance_reads_photon_configuration_witness:
  "v0Selections (defaultTask\<lparr>photonSelections := defaultPhotonSelections\<lparr>daughterEtaCut := Fin (1 / 2)\<rparr>\<rparr>)
     = v0Selections defaultTask
   \<and> isV0Selected (defaultTask\<lparr>photonSelections := defaultPhotonSelections\<lparr>daughterEtaCut := Fin (1 / 2)\<rparr>\<rparr>)
        sampleConstants (sampleV0\<lparr>negativeeta := Fin (5 / 8)\<rparr>) sampleCollision False
       \<noteq> isV0Selected defaultTask sampleConstants (sampleV0\<lparr>negativeeta := Fin (5 / 8)\<rparr>) sampleCollision False"
proof -
  have "v0Selections (defaultTask\<lparr>photonSelections := defaultPhotonSelections\<lparr>daughterEtaCut := Fin (1 / 2)\<rparr>\<rparr>)
     = v0Selections defaultTask"
    by simp
  with k0_acceptance_reads_photon_configuration show ?thesis
    by blast
qed

section \<open>The invariant-mass window at its edge\<close>

text \<open>
  Counterexample to claim C3. All the values are values of their C++ types. The
  candidate \<open>edgeV0\<close> has the \<^verbatim>\<open>float\<close> mass nearest to the K0-short mass; the
  \<^verbatim>\<open>double\<close> difference \<^verbatim>\<open>fabs(m - MassK0Short)\<close> is exact and equals the window of
  \<open>edgeTask\<close>, so the candidate lies exactly at the edge, and the K0-short-like
  classification accepts it: the claim says it is rejected. The same holds with a
  K0-short mass of \<open>1/2\<close>, a window of \<open>1/128\<close> and a candidate mass of \<open>65/128\<close>.
\<close>

theorem mass_window_edge_accepted:
  "fabs (fsub round64 (mK0Short edgeV0) (MassK0Short sampleConstants)) = v0MassWindow (v0Selections edgeTask)
   \<and> isV0Selected edgeTask sampleConstants edgeV0 sampleCollision False
   \<and> fabs (fsub round64 (mK0Short halfEdgeV0) (MassK0Short halfConstants)) = v0MassWindow (v0Selections halfEdgeTask)
   \<and> isV0Selected halfEdgeTask halfConstants halfEdgeV0 sampleCollision False"
  by (simp add: isV0Selected_def edgeTask_def edgeV0_def halfEdgeTask_def halfEdgeV0_def halfConstants_def
      sample_defs round64_exact [where k = 0])

text \<open>
  Claim C3, amended. The source rejects on \<^verbatim>\<open>fabs(m - MassK0Short) > v0MassWindow\<close>,
  so the window is inclusive at its edge: a candidate with \<open>|m - MassK0Short| =
  v0MassWindow\<close> is not rejected by the mass window, and the K0-short-like
  classification gives it the result it gives with the window opened to infinity
  (the result of all the other cuts).
\<close>

theorem mass_window_edge_not_rejected:
  assumes "fabs (fsub round64 (mK0Short v0) (MassK0Short K)) = v0MassWindow (v0Selections task)"
  shows "isV0Selected task K v0 collision False
           = isV0Selected (task\<lparr>v0Selections := (v0Selections task)\<lparr>v0MassWindow := PInf\<rparr>\<rparr>)
               K v0 collision False"
  using assms by (simp add: isV0Selected_K0_iff)

theorem mass_window_edge_not_rejected_witness:
  "fabs (fsub round64 (mK0Short edgeV0) (MassK0Short sampleConstants)) = v0MassWindow (v0Selections edgeTask)
   \<and> isV0Selected edgeTask sampleConstants edgeV0 sampleCollision False
       = isV0Selected (edgeTask\<lparr>v0Selections := (v0Selections edgeTask)\<lparr>v0MassWindow := PInf\<rparr>\<rparr>)
           sampleConstants edgeV0 sampleCollision False
   \<and> fabs (fsub round64 (mK0Short halfEdgeV0) (MassK0Short halfConstants)) = v0MassWindow (v0Selections halfEdgeTask)
   \<and> isV0Selected halfEdgeTask halfConstants halfEdgeV0 sampleCollision False
       = isV0Selected (halfEdgeTask\<lparr>v0Selections := (v0Selections halfEdgeTask)\<lparr>v0MassWindow := PInf\<rparr>\<rparr>)
           halfConstants halfEdgeV0 sampleCollision False"
proof -
  have edge: "fabs (fsub round64 (mK0Short edgeV0) (MassK0Short sampleConstants))
                = v0MassWindow (v0Selections edgeTask)"
    by (simp add: edgeTask_def edgeV0_def sample_defs)
  have half: "fabs (fsub round64 (mK0Short halfEdgeV0) (MassK0Short halfConstants))
                = v0MassWindow (v0Selections halfEdgeTask)"
    by (simp add: halfEdgeTask_def halfEdgeV0_def halfConstants_def sample_defs)
  show ?thesis
    using edge half mass_window_edge_not_rejected [OF edge] mass_window_edge_not_rejected [OF half]
    by blast
qed

section \<open>The Armenteros-Podolanski cut\<close>

text \<open>
  Counterexample to claim C4. The K0-short-like slope is \<open>1/16384\<close>, which is positive,
  and the sample candidate has \<open>qt \<cdot> k < |alpha|\<close>, so it fails the shape comparison;
  the classification accepts it all the same, because the source applies the cut only
  for a slope above \<open>1e-4\<close>.
\<close>

theorem armenteros_small_slope_skipped:
  "fgt (armPodCut (v0Selections (defaultTask\<lparr>v0Selections := defaultV0Selections\<lparr>armPodCut := Fin (1 / 16384)\<rparr>\<rparr>)))
       (Fin 0)
   \<and> flt (fmul round32 (qtarm sampleV0) (Fin (1 / 16384))) (fabs (alpha sampleV0))
   \<and> isV0Selected (defaultTask\<lparr>v0Selections := defaultV0Selections\<lparr>armPodCut := Fin (1 / 16384)\<rparr>\<rparr>)
        sampleConstants sampleV0 sampleCollision False"
  by (simp add: isV0Selected_def sample_defs)

text \<open>
  The product of the source is the \<^verbatim>\<open>float\<close> product. Where the exact product lies
  below \<open>|alpha|\<close> and its rounding does not, the candidate is not rejected: with a
  slope of 5, \<open>qt = 6710887 / 2\<^sup>2\<^sup>6\<close> and \<open>alpha = 8388609 / 2\<^sup>2\<^sup>4\<close> the product
  rounds up to \<open>alpha\<close>.
\<close>

lemma rounded_product_not_below_alpha:
  "6710887 / 2 ^ 26 * 5 < (8388609 / 2 ^ 24 :: real)"
  "\<not> flt (fmul round32 (Fin (6710887 / 2 ^ 26)) (Fin 5)) (fabs (Fin (8388609 / 2 ^ 24)))"
  "isV0Selected defaultTask sampleConstants
     (sampleV0\<lparr>qtarm := Fin (6710887 / 2 ^ 26), alpha := Fin (8388609 / 2 ^ 24)\<rparr>) sampleCollision False"
  "isV0Selected defaultTask sampleConstants
     (sampleV0\<lparr>qtarm := Fin (6710887 / 2 ^ 26), alpha := Fin (8388609 / 2 ^ 24)\<rparr>) sampleCollision True"
  by (simp_all add: isV0Selected_def sample_defs round32_normal [where k = 24] roundTiesToEven_def)

text \<open>
  Claim C4, amended. In both categories the cut is applied exactly when the slope \<open>k\<close>
  of the category is above \<open>1e-4\<close> (the \<^verbatim>\<open>double\<close> of that literal): for any other
  slope (also a NaN) the classification is the one with the cut switched off (slope 0).
  When it is applied, a candidate whose \<^verbatim>\<open>float\<close> product \<open>qt \<cdot> k\<close> is below
  \<open>|alpha|\<close> is rejected and a candidate whose product is above \<open>|alpha|\<close> passes the
  cut.
\<close>

theorem armenteros_cut:
  "(\<not> fgt (armPodCut (v0Selections task)) literal_1e_4 \<longrightarrow>
      isV0Selected task K v0 collision False
        = isV0Selected (task\<lparr>v0Selections := (v0Selections task)\<lparr>armPodCut := Fin 0\<rparr>\<rparr>) K v0 collision False)
   \<and> (fgt (armPodCut (v0Selections task)) literal_1e_4
        \<and> flt (fmul round32 (qtarm v0) (armPodCut (v0Selections task))) (fabs (alpha v0)) \<longrightarrow>
      \<not> isV0Selected task K v0 collision False)
   \<and> (fgt (armPodCut (v0Selections task)) literal_1e_4
        \<and> fgt (fmul round32 (qtarm v0) (armPodCut (v0Selections task))) (fabs (alpha v0)) \<longrightarrow>
      isV0Selected task K v0 collision False
        = isV0Selected (task\<lparr>v0Selections := (v0Selections task)\<lparr>armPodCut := Fin 0\<rparr>\<rparr>) K v0 collision False)
   \<and> (\<not> fgt (armPodCut (photonSelections task)) literal_1e_4 \<longrightarrow>
      isV0Selected task K v0 collision True
        = isV0Selected (task\<lparr>photonSelections := (photonSelections task)\<lparr>armPodCut := Fin 0\<rparr>\<rparr>) K v0 collision True)
   \<and> (fgt (armPodCut (photonSelections task)) literal_1e_4
        \<and> flt (fmul round32 (qtarm v0) (armPodCut (photonSelections task))) (fabs (alpha v0)) \<longrightarrow>
      \<not> isV0Selected task K v0 collision True)
   \<and> (fgt (armPodCut (photonSelections task)) literal_1e_4
        \<and> fgt (fmul round32 (qtarm v0) (armPodCut (photonSelections task))) (fabs (alpha v0)) \<longrightarrow>
      isV0Selected task K v0 collision True
        = isV0Selected (task\<lparr>photonSelections := (photonSelections task)\<lparr>armPodCut := Fin 0\<rparr>\<rparr>) K v0 collision True)"
proof (intro conjI impI)
  assume "\<not> fgt (armPodCut (v0Selections task)) literal_1e_4"
  then show "isV0Selected task K v0 collision False
        = isV0Selected (task\<lparr>v0Selections := (v0Selections task)\<lparr>armPodCut := Fin 0\<rparr>\<rparr>) K v0 collision False"
    by (simp add: isV0Selected_K0_iff)
next
  assume "fgt (armPodCut (v0Selections task)) literal_1e_4
        \<and> flt (fmul round32 (qtarm v0) (armPodCut (v0Selections task))) (fabs (alpha v0))"
  then show "\<not> isV0Selected task K v0 collision False"
    by (simp add: isV0Selected_K0_iff)
next
  assume "fgt (armPodCut (v0Selections task)) literal_1e_4
        \<and> fgt (fmul round32 (qtarm v0) (armPodCut (v0Selections task))) (fabs (alpha v0))"
  then show "isV0Selected task K v0 collision False
        = isV0Selected (task\<lparr>v0Selections := (v0Selections task)\<lparr>armPodCut := Fin 0\<rparr>\<rparr>) K v0 collision False"
    by (simp add: isV0Selected_K0_iff fgt_not_flt)
next
  assume "\<not> fgt (armPodCut (photonSelections task)) literal_1e_4"
  then show "isV0Selected task K v0 collision True
        = isV0Selected (task\<lparr>photonSelections := (photonSelections task)\<lparr>armPodCut := Fin 0\<rparr>\<rparr>) K v0 collision True"
    by (simp add: isV0Selected_photon_iff)
next
  assume "fgt (armPodCut (photonSelections task)) literal_1e_4
        \<and> flt (fmul round32 (qtarm v0) (armPodCut (photonSelections task))) (fabs (alpha v0))"
  then show "\<not> isV0Selected task K v0 collision True"
    by (simp add: isV0Selected_photon_iff)
next
  assume "fgt (armPodCut (photonSelections task)) literal_1e_4
        \<and> fgt (fmul round32 (qtarm v0) (armPodCut (photonSelections task))) (fabs (alpha v0))"
  then show "isV0Selected task K v0 collision True
        = isV0Selected (task\<lparr>photonSelections := (photonSelections task)\<lparr>armPodCut := Fin 0\<rparr>\<rparr>) K v0 collision True"
    by (simp add: isV0Selected_photon_iff fgt_not_flt)
qed

theorem armenteros_cut_witness:
  "\<not> fgt (armPodCut (v0Selections smallSlopeTask)) literal_1e_4
   \<and> \<not> fgt (armPodCut (photonSelections smallSlopeTask)) literal_1e_4
   \<and> isV0Selected smallSlopeTask sampleConstants (sampleV0\<lparr>alpha := Fin 1\<rparr>) sampleCollision False
   \<and> isV0Selected smallSlopeTask sampleConstants (sampleV0\<lparr>alpha := Fin 1\<rparr>) sampleCollision True
   \<and> fgt (armPodCut (v0Selections defaultTask)) literal_1e_4
   \<and> fgt (armPodCut (photonSelections defaultTask)) literal_1e_4
   \<and> flt (fmul round32 (qtarm (sampleV0\<lparr>alpha := Fin 1\<rparr>)) (Fin 5)) (fabs (alpha (sampleV0\<lparr>alpha := Fin 1\<rparr>)))
   \<and> \<not> isV0Selected defaultTask sampleConstants (sampleV0\<lparr>alpha := Fin 1\<rparr>) sampleCollision False
   \<and> \<not> isV0Selected defaultTask sampleConstants (sampleV0\<lparr>alpha := Fin 1\<rparr>) sampleCollision True
   \<and> fgt (fmul round32 (qtarm sampleV0) (Fin 5)) (fabs (alpha sampleV0))
   \<and> isV0Selected defaultTask sampleConstants sampleV0 sampleCollision False
   \<and> isV0Selected defaultTask sampleConstants sampleV0 sampleCollision True"
proof -
  have small: "\<not> fgt (armPodCut (v0Selections smallSlopeTask)) literal_1e_4
      \<and> \<not> fgt (armPodCut (photonSelections smallSlopeTask)) literal_1e_4"
    by (simp add: smallSlopeTask_def sample_defs)
  have large: "fgt (armPodCut (v0Selections defaultTask)) literal_1e_4
      \<and> fgt (armPodCut (photonSelections defaultTask)) literal_1e_4"
    and k5: "armPodCut (v0Selections defaultTask) = Fin 5 \<and> armPodCut (photonSelections defaultTask) = Fin 5"
    by (simp_all add: sample_defs)
  have below: "flt (fmul round32 (qtarm (sampleV0\<lparr>alpha := Fin 1\<rparr>)) (Fin 5)) (fabs (alpha (sampleV0\<lparr>alpha := Fin 1\<rparr>)))"
    and above: "fgt (fmul round32 (qtarm sampleV0) (Fin 5)) (fabs (alpha sampleV0))"
    by (simp_all add: sample_defs)
  have off: "isV0Selected (smallSlopeTask\<lparr>v0Selections := (v0Selections smallSlopeTask)\<lparr>armPodCut := Fin 0\<rparr>\<rparr>)
        sampleConstants (sampleV0\<lparr>alpha := Fin 1\<rparr>) sampleCollision False
      \<and> isV0Selected (smallSlopeTask\<lparr>photonSelections := (photonSelections smallSlopeTask)\<lparr>armPodCut := Fin 0\<rparr>\<rparr>)
        sampleConstants (sampleV0\<lparr>alpha := Fin 1\<rparr>) sampleCollision True
      \<and> isV0Selected (defaultTask\<lparr>v0Selections := (v0Selections defaultTask)\<lparr>armPodCut := Fin 0\<rparr>\<rparr>)
        sampleConstants sampleV0 sampleCollision False
      \<and> isV0Selected (defaultTask\<lparr>photonSelections := (photonSelections defaultTask)\<lparr>armPodCut := Fin 0\<rparr>\<rparr>)
        sampleConstants sampleV0 sampleCollision True"
    by (simp add: isV0Selected_def smallSlopeTask_def sample_defs)
  note skipped = armenteros_cut [of smallSlopeTask sampleConstants "sampleV0\<lparr>alpha := Fin 1\<rparr>" sampleCollision]
  note failed = armenteros_cut [of defaultTask sampleConstants "sampleV0\<lparr>alpha := Fin 1\<rparr>" sampleCollision]
  note passed = armenteros_cut [of defaultTask sampleConstants sampleV0 sampleCollision]
  from skipped small off
  have r1: "isV0Selected smallSlopeTask sampleConstants (sampleV0\<lparr>alpha := Fin 1\<rparr>) sampleCollision False
      \<and> isV0Selected smallSlopeTask sampleConstants (sampleV0\<lparr>alpha := Fin 1\<rparr>) sampleCollision True"
    by blast
  from failed large below k5
  have r2: "\<not> isV0Selected defaultTask sampleConstants (sampleV0\<lparr>alpha := Fin 1\<rparr>) sampleCollision False
      \<and> \<not> isV0Selected defaultTask sampleConstants (sampleV0\<lparr>alpha := Fin 1\<rparr>) sampleCollision True"
    by simp
  from passed large above k5 off
  have r3: "isV0Selected defaultTask sampleConstants sampleV0 sampleCollision False
      \<and> isV0Selected defaultTask sampleConstants sampleV0 sampleCollision True"
    by simp
  from small large below above r1 r2 r3 show ?thesis by blast
qed

section \<open>NaN in a cut variable\<close>

text \<open>
  Counterexample to claim C6. The sample candidate with a NaN pointing-angle cosine is
  accepted in both categories under the default configuration: the comparison
  \<^verbatim>\<open>v0cosPA < v0cospa\<close> is false for a NaN and the cut does not reject.
\<close>

theorem nan_cospa_accepted:
  "v0cosPA (sampleV0\<lparr>v0cosPA := NaN\<rparr>) = NaN
   \<and> isV0Selected defaultTask sampleConstants (sampleV0\<lparr>v0cosPA := NaN\<rparr>) sampleCollision False
   \<and> isV0Selected defaultTask sampleConstants (sampleV0\<lparr>v0cosPA := NaN\<rparr>) sampleCollision True"
  by (simp add: isV0Selected_def sample_defs)

text \<open>
  A candidate with a NaN in one cut variable is classified as the same candidate with
  the cut of that variable switched off: the result is that of the remaining cuts.
  Where two variables share a threshold (the two pseudorapidities, the two TOF and TPC
  values of the daughters) the comparison of the other variable stays.
\<close>

lemma nan_switches_off_K0:
  "isV0Selected task K (v0\<lparr>z := NaN\<rparr>) collision False
       = isV0Selected task K v0 collision False"
  "isV0Selected task K (v0\<lparr>negativeeta := NaN\<rparr>) collision False
       = (isV0Selected (task\<lparr>photonSelections := (photonSelections task)\<lparr>daughterEtaCut := PInf\<rparr>\<rparr>)
           K v0 collision False
          \<and> \<not> fgt (fabs (positiveeta v0)) (daughterEtaCut (photonSelections task)))"
  "isV0Selected task K (v0\<lparr>positiveeta := NaN\<rparr>) collision False
       = (isV0Selected (task\<lparr>photonSelections := (photonSelections task)\<lparr>daughterEtaCut := PInf\<rparr>\<rparr>)
           K v0 collision False
          \<and> \<not> fgt (fabs (negativeeta v0)) (daughterEtaCut (photonSelections task)))"
  "isV0Selected task K (v0\<lparr>V0.v0radius := NaN\<rparr>) collision False
       = isV0Selected (task\<lparr>v0Selections := (v0Selections task)\<lparr>Selections.v0radius := MInf, v0radiusMax := PInf\<rparr>\<rparr>)
           K v0 collision False"
  "isV0Selected task K (v0\<lparr>V0.dcapostopv := NaN\<rparr>) collision False
       = isV0Selected (task\<lparr>v0Selections := (v0Selections task)\<lparr>Selections.dcapostopv := MInf\<rparr>\<rparr>)
           K v0 collision False"
  "isV0Selected task K (v0\<lparr>V0.dcanegtopv := NaN\<rparr>) collision False
       = isV0Selected (task\<lparr>v0Selections := (v0Selections task)\<lparr>Selections.dcanegtopv := PInf\<rparr>\<rparr>)
           K v0 collision False"
  "isV0Selected task K (v0\<lparr>v0cosPA := NaN\<rparr>) collision False
       = isV0Selected (task\<lparr>v0Selections := (v0Selections task)\<lparr>v0cospa := MInf\<rparr>\<rparr>)
           K v0 collision False"
  "isV0Selected task K (v0\<lparr>dcaV0daughters := NaN\<rparr>) collision False
       = isV0Selected (task\<lparr>v0Selections := (v0Selections task)\<lparr>dcav0dau := PInf\<rparr>\<rparr>)
           K v0 collision False"
  "isV0Selected task K (v0\<lparr>V0.dcav0topv := NaN\<rparr>) collision False
       = isV0Selected (task\<lparr>v0Selections := (v0Selections task)\<lparr>Selections.dcav0topv := MInf\<rparr>\<rparr>)
           K v0 collision False"
  "isV0Selected task K (v0\<lparr>mGamma := NaN\<rparr>) collision False
       = isV0Selected task K v0 collision False"
  "isV0Selected task K (v0\<lparr>mK0Short := NaN\<rparr>) collision False
       = isV0Selected (task\<lparr>v0Selections := (v0Selections task)\<lparr>v0MassWindow := PInf\<rparr>\<rparr>)
           K v0 collision False"
  "isV0Selected task K (v0\<lparr>mLambda := NaN\<rparr>) collision False
       = isV0Selected (task\<lparr>v0Selections := (v0Selections task)\<lparr>compMassRejection := MInf\<rparr>\<rparr>)
           K v0 collision False"
  "isV0Selected task K (v0\<lparr>posTOFDeltaTK0Pi := NaN\<rparr>) collision False
       = (isV0Selected (task\<lparr>v0Selections := (v0Selections task)\<lparr>maxDeltaTimePion := PInf\<rparr>\<rparr>)
           K v0 collision False
          \<and> \<not> fgt (fabs (negTOFDeltaTK0Pi v0)) (maxDeltaTimePion (v0Selections task)))"
  "isV0Selected task K (v0\<lparr>negTOFDeltaTK0Pi := NaN\<rparr>) collision False
       = (isV0Selected (task\<lparr>v0Selections := (v0Selections task)\<lparr>maxDeltaTimePion := PInf\<rparr>\<rparr>)
           K v0 collision False
          \<and> \<not> fgt (fabs (posTOFDeltaTK0Pi v0)) (maxDeltaTimePion (v0Selections task)))"
  "isV0Selected task K (v0\<lparr>tofNSigmaK0PiPlus := NaN\<rparr>) collision False
       = (isV0Selected (task\<lparr>v0Selections := (v0Selections task)\<lparr>tofPidNsigmaCutK0Pi := PInf\<rparr>\<rparr>)
           K v0 collision False
          \<and> \<not> fgt (fabs (tofNSigmaK0PiMinus v0)) (tofPidNsigmaCutK0Pi (v0Selections task)))"
  "isV0Selected task K (v0\<lparr>tofNSigmaK0PiMinus := NaN\<rparr>) collision False
       = (isV0Selected (task\<lparr>v0Selections := (v0Selections task)\<lparr>tofPidNsigmaCutK0Pi := PInf\<rparr>\<rparr>)
           K v0 collision False
          \<and> \<not> fgt (fabs (tofNSigmaK0PiPlus v0)) (tofPidNsigmaCutK0Pi (v0Selections task)))"
  "isV0Selected task K (v0\<lparr>distovertotmom := (\<lambda>x y w. NaN)\<rparr>) collision False
       = isV0Selected (task\<lparr>v0Selections := (v0Selections task)\<lparr>lifetimeCut := PInf\<rparr>\<rparr>)
           K v0 collision False"
  "isV0Selected task K (v0\<lparr>qtarm := NaN\<rparr>) collision False
       = isV0Selected (task\<lparr>v0Selections := (v0Selections task)\<lparr>armPodCut := Fin 0\<rparr>\<rparr>)
           K v0 collision False"
  "isV0Selected task K (v0\<lparr>alpha := NaN\<rparr>) collision False
       = isV0Selected (task\<lparr>v0Selections := (v0Selections task)\<lparr>armPodCut := Fin 0\<rparr>\<rparr>)
           K v0 collision False"
  "isV0Selected task K (v0\<lparr>posTrackExtra := (posTrackExtra v0)\<lparr>itsChi2PerNcl := NaN\<rparr>\<rparr>) collision False
       = isV0Selected (task\<lparr>v0Selections := (v0Selections task)\<lparr>rejectPosITSafterburner := False\<rparr>\<rparr>)
           K v0 collision False"
  "isV0Selected task K (v0\<lparr>negTrackExtra := (negTrackExtra v0)\<lparr>itsChi2PerNcl := NaN\<rparr>\<rparr>) collision False
       = isV0Selected (task\<lparr>v0Selections := (v0Selections task)\<lparr>rejectNegITSafterburner := False\<rparr>\<rparr>)
           K v0 collision False"
  "isV0Selected task K (v0\<lparr>posTrackExtra := (posTrackExtra v0)\<lparr>tpcNSigmaPi := NaN\<rparr>\<rparr>) collision False
       = (isV0Selected (task\<lparr>v0Selections := (v0Selections task)\<lparr>tpcPidNsigmaCut := PInf\<rparr>\<rparr>)
           K v0 collision False
          \<and> \<not> fgt (fabs (tpcNSigmaPi (negTrackExtra v0))) (tpcPidNsigmaCut (v0Selections task)))"
  "isV0Selected task K (v0\<lparr>negTrackExtra := (negTrackExtra v0)\<lparr>tpcNSigmaPi := NaN\<rparr>\<rparr>) collision False
       = (isV0Selected (task\<lparr>v0Selections := (v0Selections task)\<lparr>tpcPidNsigmaCut := PInf\<rparr>\<rparr>)
           K v0 collision False
          \<and> \<not> fgt (fabs (tpcNSigmaPi (posTrackExtra v0))) (tpcPidNsigmaCut (v0Selections task)))"
  "isV0Selected task K (v0\<lparr>posTrackExtra := (posTrackExtra v0)\<lparr>tpcNSigmaEl := NaN\<rparr>\<rparr>) collision False
       = isV0Selected task K v0 collision False"
  "isV0Selected task K (v0\<lparr>negTrackExtra := (negTrackExtra v0)\<lparr>tpcNSigmaEl := NaN\<rparr>\<rparr>) collision False
       = isV0Selected task K v0 collision False"
  by (simp_all add: isV0Selected_K0_iff) blast+

lemma nan_switches_off_photon:
  "isV0Selected task K (v0\<lparr>z := NaN\<rparr>) collision True
       = isV0Selected (task\<lparr>photonSelections := (photonSelections task)\<lparr>photonZMax := PInf\<rparr>\<rparr>)
           K v0 collision True"
  "isV0Selected task K (v0\<lparr>negativeeta := NaN\<rparr>) collision True
       = (isV0Selected (task\<lparr>photonSelections := (photonSelections task)\<lparr>daughterEtaCut := PInf\<rparr>\<rparr>)
           K v0 collision True
          \<and> \<not> fgt (fabs (positiveeta v0)) (daughterEtaCut (photonSelections task)))"
  "isV0Selected task K (v0\<lparr>positiveeta := NaN\<rparr>) collision True
       = (isV0Selected (task\<lparr>photonSelections := (photonSelections task)\<lparr>daughterEtaCut := PInf\<rparr>\<rparr>)
           K v0 collision True
          \<and> \<not> fgt (fabs (negativeeta v0)) (daughterEtaCut (photonSelections task)))"
  "isV0Selected task K (v0\<lparr>V0.v0radius := NaN\<rparr>) collision True
       = isV0Selected (task\<lparr>photonSelections := (photonSelections task)\<lparr>Selections.v0radius := MInf, v0radiusMax := PInf\<rparr>\<rparr>)
           K v0 collision True"
  "isV0Selected task K (v0\<lparr>V0.dcapostopv := NaN\<rparr>) collision True
       = isV0Selected (task\<lparr>photonSelections := (photonSelections task)\<lparr>Selections.dcapostopv := MInf\<rparr>\<rparr>)
           K v0 collision True"
  "isV0Selected task K (v0\<lparr>V0.dcanegtopv := NaN\<rparr>) collision True
       = isV0Selected (task\<lparr>photonSelections := (photonSelections task)\<lparr>Selections.dcanegtopv := PInf\<rparr>\<rparr>)
           K v0 collision True"
  "isV0Selected task K (v0\<lparr>v0cosPA := NaN\<rparr>) collision True
       = isV0Selected (task\<lparr>photonSelections := (photonSelections task)\<lparr>v0cospa := MInf\<rparr>\<rparr>)
           K v0 collision True"
  "isV0Selected task K (v0\<lparr>dcaV0daughters := NaN\<rparr>) collision True
       = isV0Selected (task\<lparr>photonSelections := (photonSelections task)\<lparr>dcav0dau := PInf\<rparr>\<rparr>)
           K v0 collision True"
  "isV0Selected task K (v0\<lparr>V0.dcav0topv := NaN\<rparr>) collision True
       = isV0Selected (task\<lparr>photonSelections := (photonSelections task)\<lparr>Selections.dcav0topv := MInf\<rparr>\<rparr>)
           K v0 collision True"
  "isV0Selected task K (v0\<lparr>mGamma := NaN\<rparr>) collision True
       = isV0Selected (task\<lparr>photonSelections := (photonSelections task)\<lparr>photonMassMax := PInf\<rparr>\<rparr>)
           K v0 collision True"
  "isV0Selected task K (v0\<lparr>mK0Short := NaN\<rparr>) collision True
       = isV0Selected task K v0 collision True"
  "isV0Selected task K (v0\<lparr>mLambda := NaN\<rparr>) collision True
       = isV0Selected task K v0 collision True"
  "isV0Selected task K (v0\<lparr>posTOFDeltaTK0Pi := NaN\<rparr>) collision True
       = isV0Selected task K v0 collision True"
  "isV0Selected task K (v0\<lparr>negTOFDeltaTK0Pi := NaN\<rparr>) collision True
       = isV0Selected task K v0 collision True"
  "isV0Selected task K (v0\<lparr>tofNSigmaK0PiPlus := NaN\<rparr>) collision True
       = isV0Selected task K v0 collision True"
  "isV0Selected task K (v0\<lparr>tofNSigmaK0PiMinus := NaN\<rparr>) collision True
       = isV0Selected task K v0 collision True"
  "isV0Selected task K (v0\<lparr>distovertotmom := (\<lambda>x y w. NaN)\<rparr>) collision True
       = isV0Selected task K v0 collision True"
  "isV0Selected task K (v0\<lparr>qtarm := NaN\<rparr>) collision True
       = isV0Selected (task\<lparr>photonSelections := (photonSelections task)\<lparr>armPodCut := Fin 0\<rparr>\<rparr>)
           K v0 collision True"
  "isV0Selected task K (v0\<lparr>alpha := NaN\<rparr>) collision True
       = isV0Selected (task\<lparr>photonSelections := (photonSelections task)\<lparr>armPodCut := Fin 0\<rparr>\<rparr>)
           K v0 collision True"
  "isV0Selected task K (v0\<lparr>posTrackExtra := (posTrackExtra v0)\<lparr>itsChi2PerNcl := NaN\<rparr>\<rparr>) collision True
       = isV0Selected (task\<lparr>photonSelections := (photonSelections task)\<lparr>rejectPosITSafterburner := False\<rparr>\<rparr>)
           K v0 collision True"
  "isV0Selected task K (v0\<lparr>negTrackExtra := (negTrackExtra v0)\<lparr>itsChi2PerNcl := NaN\<rparr>\<rparr>) collision True
       = isV0Selected (task\<lparr>photonSelections := (photonSelections task)\<lparr>rejectNegITSafterburner := False\<rparr>\<rparr>)
           K v0 collision True"
  "isV0Selected task K (v0\<lparr>posTrackExtra := (posTrackExtra v0)\<lparr>tpcNSigmaEl := NaN\<rparr>\<rparr>) collision True
       = (isV0Selected (task\<lparr>photonSelections := (photonSelections task)\<lparr>tpcPidNsigmaCut := PInf\<rparr>\<rparr>)
           K v0 collision True
          \<and> \<not> fgt (fabs (tpcNSigmaEl (negTrackExtra v0))) (tpcPidNsigmaCut (photonSelections task)))"
  "isV0Selected task K (v0\<lparr>negTrackExtra := (negTrackExtra v0)\<lparr>tpcNSigmaEl := NaN\<rparr>\<rparr>) collision True
       = (isV0Selected (task\<lparr>photonSelections := (photonSelections task)\<lparr>tpcPidNsigmaCut := PInf\<rparr>\<rparr>)
           K v0 collision True
          \<and> \<not> fgt (fabs (tpcNSigmaEl (posTrackExtra v0))) (tpcPidNsigmaCut (photonSelections task)))"
  "isV0Selected task K (v0\<lparr>posTrackExtra := (posTrackExtra v0)\<lparr>tpcNSigmaPi := NaN\<rparr>\<rparr>) collision True
       = isV0Selected task K v0 collision True"
  "isV0Selected task K (v0\<lparr>negTrackExtra := (negTrackExtra v0)\<lparr>tpcNSigmaPi := NaN\<rparr>\<rparr>) collision True
       = isV0Selected task K v0 collision True"
  by (simp_all add: isV0Selected_photon_iff) blast+

text \<open>An accepted candidate stays accepted when a cut variable becomes a NaN.\<close>

lemma nan_keeps_accepted:
  assumes "isV0Selected task K v0 collision isPhoton"
  shows "isV0Selected task K (v0\<lparr>v0cosPA := NaN\<rparr>) collision isPhoton
       \<and> isV0Selected task K (v0\<lparr>z := NaN\<rparr>) collision isPhoton
       \<and> isV0Selected task K (v0\<lparr>negativeeta := NaN\<rparr>) collision isPhoton
       \<and> isV0Selected task K (v0\<lparr>positiveeta := NaN\<rparr>) collision isPhoton
       \<and> isV0Selected task K (v0\<lparr>V0.v0radius := NaN\<rparr>) collision isPhoton
       \<and> isV0Selected task K (v0\<lparr>V0.dcapostopv := NaN\<rparr>) collision isPhoton
       \<and> isV0Selected task K (v0\<lparr>V0.dcanegtopv := NaN\<rparr>) collision isPhoton
       \<and> isV0Selected task K (v0\<lparr>dcaV0daughters := NaN\<rparr>) collision isPhoton
       \<and> isV0Selected task K (v0\<lparr>V0.dcav0topv := NaN\<rparr>) collision isPhoton
       \<and> isV0Selected task K (v0\<lparr>mGamma := NaN\<rparr>) collision isPhoton
       \<and> isV0Selected task K (v0\<lparr>mK0Short := NaN\<rparr>) collision isPhoton
       \<and> isV0Selected task K (v0\<lparr>mLambda := NaN\<rparr>) collision isPhoton
       \<and> isV0Selected task K (v0\<lparr>posTOFDeltaTK0Pi := NaN\<rparr>) collision isPhoton
       \<and> isV0Selected task K (v0\<lparr>negTOFDeltaTK0Pi := NaN\<rparr>) collision isPhoton
       \<and> isV0Selected task K (v0\<lparr>tofNSigmaK0PiPlus := NaN\<rparr>) collision isPhoton
       \<and> isV0Selected task K (v0\<lparr>tofNSigmaK0PiMinus := NaN\<rparr>) collision isPhoton
       \<and> isV0Selected task K (v0\<lparr>distovertotmom := (\<lambda>x y w. NaN)\<rparr>) collision isPhoton
       \<and> isV0Selected task K (v0\<lparr>qtarm := NaN\<rparr>) collision isPhoton
       \<and> isV0Selected task K (v0\<lparr>alpha := NaN\<rparr>) collision isPhoton
       \<and> isV0Selected task K (v0\<lparr>posTrackExtra := (posTrackExtra v0)\<lparr>itsChi2PerNcl := NaN\<rparr>\<rparr>) collision isPhoton
       \<and> isV0Selected task K (v0\<lparr>negTrackExtra := (negTrackExtra v0)\<lparr>itsChi2PerNcl := NaN\<rparr>\<rparr>) collision isPhoton
       \<and> isV0Selected task K (v0\<lparr>posTrackExtra := (posTrackExtra v0)\<lparr>tpcNSigmaEl := NaN\<rparr>\<rparr>) collision isPhoton
       \<and> isV0Selected task K (v0\<lparr>negTrackExtra := (negTrackExtra v0)\<lparr>tpcNSigmaEl := NaN\<rparr>\<rparr>) collision isPhoton
       \<and> isV0Selected task K (v0\<lparr>posTrackExtra := (posTrackExtra v0)\<lparr>tpcNSigmaPi := NaN\<rparr>\<rparr>) collision isPhoton
       \<and> isV0Selected task K (v0\<lparr>negTrackExtra := (negTrackExtra v0)\<lparr>tpcNSigmaPi := NaN\<rparr>\<rparr>) collision isPhoton"
proof (cases isPhoton)
  case True
  with assms show ?thesis
    by (simp add: isV0Selected_photon_iff)
next
  case False
  with assms show ?thesis
    by (simp add: isV0Selected_K0_iff)
qed

text \<open>
  Claim C6, amended. \<open>isV0Selected\<close> is a total function, so no input makes it fail.
  Every cut rejects when its comparison is true and a comparison with a NaN is false:
  a NaN in a cut variable makes the candidate pass the cut of that variable, and the
  result is the one of the remaining cuts. In each category, the classification of a
  candidate with a NaN in a floating-point cut variable equals the classification with
  the thresholds of that variable switched off (together with the comparison of the
  other daughter where the two daughters share the threshold), and is unchanged where
  the category does not read the variable. In particular an accepted candidate stays
  accepted when any of its cut variables is replaced by a NaN.
\<close>

theorem nan_never_rejects:
  "isV0Selected task K (v0\<lparr>z := NaN\<rparr>) collision False
         = isV0Selected task K v0 collision False
   \<and> isV0Selected task K (v0\<lparr>negativeeta := NaN\<rparr>) collision False
         = (isV0Selected (task\<lparr>photonSelections := (photonSelections task)\<lparr>daughterEtaCut := PInf\<rparr>\<rparr>)
             K v0 collision False
            \<and> \<not> fgt (fabs (positiveeta v0)) (daughterEtaCut (photonSelections task)))
   \<and> isV0Selected task K (v0\<lparr>positiveeta := NaN\<rparr>) collision False
         = (isV0Selected (task\<lparr>photonSelections := (photonSelections task)\<lparr>daughterEtaCut := PInf\<rparr>\<rparr>)
             K v0 collision False
            \<and> \<not> fgt (fabs (negativeeta v0)) (daughterEtaCut (photonSelections task)))
   \<and> isV0Selected task K (v0\<lparr>V0.v0radius := NaN\<rparr>) collision False
         = isV0Selected (task\<lparr>v0Selections := (v0Selections task)\<lparr>Selections.v0radius := MInf, v0radiusMax := PInf\<rparr>\<rparr>)
             K v0 collision False
   \<and> isV0Selected task K (v0\<lparr>V0.dcapostopv := NaN\<rparr>) collision False
         = isV0Selected (task\<lparr>v0Selections := (v0Selections task)\<lparr>Selections.dcapostopv := MInf\<rparr>\<rparr>)
             K v0 collision False
   \<and> isV0Selected task K (v0\<lparr>V0.dcanegtopv := NaN\<rparr>) collision False
         = isV0Selected (task\<lparr>v0Selections := (v0Selections task)\<lparr>Selections.dcanegtopv := PInf\<rparr>\<rparr>)
             K v0 collision False
   \<and> isV0Selected task K (v0\<lparr>v0cosPA := NaN\<rparr>) collision False
         = isV0Selected (task\<lparr>v0Selections := (v0Selections task)\<lparr>v0cospa := MInf\<rparr>\<rparr>)
             K v0 collision False
   \<and> isV0Selected task K (v0\<lparr>dcaV0daughters := NaN\<rparr>) collision False
         = isV0Selected (task\<lparr>v0Selections := (v0Selections task)\<lparr>dcav0dau := PInf\<rparr>\<rparr>)
             K v0 collision False
   \<and> isV0Selected task K (v0\<lparr>V0.dcav0topv := NaN\<rparr>) collision False
         = isV0Selected (task\<lparr>v0Selections := (v0Selections task)\<lparr>Selections.dcav0topv := MInf\<rparr>\<rparr>)
             K v0 collision False
   \<and> isV0Selected task K (v0\<lparr>mGamma := NaN\<rparr>) collision False
         = isV0Selected task K v0 collision False
   \<and> isV0Selected task K (v0\<lparr>mK0Short := NaN\<rparr>) collision False
         = isV0Selected (task\<lparr>v0Selections := (v0Selections task)\<lparr>v0MassWindow := PInf\<rparr>\<rparr>)
             K v0 collision False
   \<and> isV0Selected task K (v0\<lparr>mLambda := NaN\<rparr>) collision False
         = isV0Selected (task\<lparr>v0Selections := (v0Selections task)\<lparr>compMassRejection := MInf\<rparr>\<rparr>)
             K v0 collision False
   \<and> isV0Selected task K (v0\<lparr>posTOFDeltaTK0Pi := NaN\<rparr>) collision False
         = (isV0Selected (task\<lparr>v0Selections := (v0Selections task)\<lparr>maxDeltaTimePion := PInf\<rparr>\<rparr>)
             K v0 collision False
            \<and> \<not> fgt (fabs (negTOFDeltaTK0Pi v0)) (maxDeltaTimePion (v0Selections task)))
   \<and> isV0Selected task K (v0\<lparr>negTOFDeltaTK0Pi := NaN\<rparr>) collision False
         = (isV0Selected (task\<lparr>v0Selections := (v0Selections task)\<lparr>maxDeltaTimePion := PInf\<rparr>\<rparr>)
             K v0 collision False
            \<and> \<not> fgt (fabs (posTOFDeltaTK0Pi v0)) (maxDeltaTimePion (v0Selections task)))
   \<and> isV0Selected task K (v0\<lparr>tofNSigmaK0PiPlus := NaN\<rparr>) collision False
         = (isV0Selected (task\<lparr>v0Selections := (v0Selections task)\<lparr>tofPidNsigmaCutK0Pi := PInf\<rparr>\<rparr>)
             K v0 collision False
            \<and> \<not> fgt (fabs (tofNSigmaK0PiMinus v0)) (tofPidNsigmaCutK0Pi (v0Selections task)))
   \<and> isV0Selected task K (v0\<lparr>tofNSigmaK0PiMinus := NaN\<rparr>) collision False
         = (isV0Selected (task\<lparr>v0Selections := (v0Selections task)\<lparr>tofPidNsigmaCutK0Pi := PInf\<rparr>\<rparr>)
             K v0 collision False
            \<and> \<not> fgt (fabs (tofNSigmaK0PiPlus v0)) (tofPidNsigmaCutK0Pi (v0Selections task)))
   \<and> isV0Selected task K (v0\<lparr>distovertotmom := (\<lambda>x y w. NaN)\<rparr>) collision False
         = isV0Selected (task\<lparr>v0Selections := (v0Selections task)\<lparr>lifetimeCut := PInf\<rparr>\<rparr>)
             K v0 collision False
   \<and> isV0Selected task K (v0\<lparr>qtarm := NaN\<rparr>) collision False
         = isV0Selected (task\<lparr>v0Selections := (v0Selections task)\<lparr>armPodCut := Fin 0\<rparr>\<rparr>)
             K v0 collision False
   \<and> isV0Selected task K (v0\<lparr>alpha := NaN\<rparr>) collision False
         = isV0Selected (task\<lparr>v0Selections := (v0Selections task)\<lparr>armPodCut := Fin 0\<rparr>\<rparr>)
             K v0 collision False
   \<and> isV0Selected task K (v0\<lparr>posTrackExtra := (posTrackExtra v0)\<lparr>itsChi2PerNcl := NaN\<rparr>\<rparr>) collision False
         = isV0Selected (task\<lparr>v0Selections := (v0Selections task)\<lparr>rejectPosITSafterburner := False\<rparr>\<rparr>)
             K v0 collision False
   \<and> isV0Selected task K (v0\<lparr>negTrackExtra := (negTrackExtra v0)\<lparr>itsChi2PerNcl := NaN\<rparr>\<rparr>) collision False
         = isV0Selected (task\<lparr>v0Selections := (v0Selections task)\<lparr>rejectNegITSafterburner := False\<rparr>\<rparr>)
             K v0 collision False
   \<and> isV0Selected task K (v0\<lparr>posTrackExtra := (posTrackExtra v0)\<lparr>tpcNSigmaPi := NaN\<rparr>\<rparr>) collision False
         = (isV0Selected (task\<lparr>v0Selections := (v0Selections task)\<lparr>tpcPidNsigmaCut := PInf\<rparr>\<rparr>)
             K v0 collision False
            \<and> \<not> fgt (fabs (tpcNSigmaPi (negTrackExtra v0))) (tpcPidNsigmaCut (v0Selections task)))
   \<and> isV0Selected task K (v0\<lparr>negTrackExtra := (negTrackExtra v0)\<lparr>tpcNSigmaPi := NaN\<rparr>\<rparr>) collision False
         = (isV0Selected (task\<lparr>v0Selections := (v0Selections task)\<lparr>tpcPidNsigmaCut := PInf\<rparr>\<rparr>)
             K v0 collision False
            \<and> \<not> fgt (fabs (tpcNSigmaPi (posTrackExtra v0))) (tpcPidNsigmaCut (v0Selections task)))
   \<and> isV0Selected task K (v0\<lparr>posTrackExtra := (posTrackExtra v0)\<lparr>tpcNSigmaEl := NaN\<rparr>\<rparr>) collision False
         = isV0Selected task K v0 collision False
   \<and> isV0Selected task K (v0\<lparr>negTrackExtra := (negTrackExtra v0)\<lparr>tpcNSigmaEl := NaN\<rparr>\<rparr>) collision False
         = isV0Selected task K v0 collision False
   \<and> isV0Selected task K (v0\<lparr>z := NaN\<rparr>) collision True
         = isV0Selected (task\<lparr>photonSelections := (photonSelections task)\<lparr>photonZMax := PInf\<rparr>\<rparr>)
             K v0 collision True
   \<and> isV0Selected task K (v0\<lparr>negativeeta := NaN\<rparr>) collision True
         = (isV0Selected (task\<lparr>photonSelections := (photonSelections task)\<lparr>daughterEtaCut := PInf\<rparr>\<rparr>)
             K v0 collision True
            \<and> \<not> fgt (fabs (positiveeta v0)) (daughterEtaCut (photonSelections task)))
   \<and> isV0Selected task K (v0\<lparr>positiveeta := NaN\<rparr>) collision True
         = (isV0Selected (task\<lparr>photonSelections := (photonSelections task)\<lparr>daughterEtaCut := PInf\<rparr>\<rparr>)
             K v0 collision True
            \<and> \<not> fgt (fabs (negativeeta v0)) (daughterEtaCut (photonSelections task)))
   \<and> isV0Selected task K (v0\<lparr>V0.v0radius := NaN\<rparr>) collision True
         = isV0Selected (task\<lparr>photonSelections := (photonSelections task)\<lparr>Selections.v0radius := MInf, v0radiusMax := PInf\<rparr>\<rparr>)
             K v0 collision True
   \<and> isV0Selected task K (v0\<lparr>V0.dcapostopv := NaN\<rparr>) collision True
         = isV0Selected (task\<lparr>photonSelections := (photonSelections task)\<lparr>Selections.dcapostopv := MInf\<rparr>\<rparr>)
             K v0 collision True
   \<and> isV0Selected task K (v0\<lparr>V0.dcanegtopv := NaN\<rparr>) collision True
         = isV0Selected (task\<lparr>photonSelections := (photonSelections task)\<lparr>Selections.dcanegtopv := PInf\<rparr>\<rparr>)
             K v0 collision True
   \<and> isV0Selected task K (v0\<lparr>v0cosPA := NaN\<rparr>) collision True
         = isV0Selected (task\<lparr>photonSelections := (photonSelections task)\<lparr>v0cospa := MInf\<rparr>\<rparr>)
             K v0 collision True
   \<and> isV0Selected task K (v0\<lparr>dcaV0daughters := NaN\<rparr>) collision True
         = isV0Selected (task\<lparr>photonSelections := (photonSelections task)\<lparr>dcav0dau := PInf\<rparr>\<rparr>)
             K v0 collision True
   \<and> isV0Selected task K (v0\<lparr>V0.dcav0topv := NaN\<rparr>) collision True
         = isV0Selected (task\<lparr>photonSelections := (photonSelections task)\<lparr>Selections.dcav0topv := MInf\<rparr>\<rparr>)
             K v0 collision True
   \<and> isV0Selected task K (v0\<lparr>mGamma := NaN\<rparr>) collision True
         = isV0Selected (task\<lparr>photonSelections := (photonSelections task)\<lparr>photonMassMax := PInf\<rparr>\<rparr>)
             K v0 collision True
   \<and> isV0Selected task K (v0\<lparr>mK0Short := NaN\<rparr>) collision True
         = isV0Selected task K v0 collision True
   \<and> isV0Selected task K (v0\<lparr>mLambda := NaN\<rparr>) collision True
         = isV0Selected task K v0 collision True
   \<and> isV0Selected task K (v0\<lparr>posTOFDeltaTK0Pi := NaN\<rparr>) collision True
         = isV0Selected task K v0 collision True
   \<and> isV0Selected task K (v0\<lparr>negTOFDeltaTK0Pi := NaN\<rparr>) collision True
         = isV0Selected task K v0 collision True
   \<and> isV0Selected task K (v0\<lparr>tofNSigmaK0PiPlus := NaN\<rparr>) collision True
         = isV0Selected task K v0 collision True
   \<and> isV0Selected task K (v0\<lparr>tofNSigmaK0PiMinus := NaN\<rparr>) collision True
         = isV0Selected task K v0 collision True
   \<and> isV0Selected task K (v0\<lparr>distovertotmom := (\<lambda>x y w. NaN)\<rparr>) collision True
         = isV0Selected task K v0 collision True
   \<and> isV0Selected task K (v0\<lparr>qtarm := NaN\<rparr>) collision True
         = isV0Selected (task\<lparr>photonSelections := (photonSelections task)\<lparr>armPodCut := Fin 0\<rparr>\<rparr>)
             K v0 collision True
   \<and> isV0Selected task K (v0\<lparr>alpha := NaN\<rparr>) collision True
         = isV0Selected (task\<lparr>photonSelections := (photonSelections task)\<lparr>armPodCut := Fin 0\<rparr>\<rparr>)
             K v0 collision True
   \<and> isV0Selected task K (v0\<lparr>posTrackExtra := (posTrackExtra v0)\<lparr>itsChi2PerNcl := NaN\<rparr>\<rparr>) collision True
         = isV0Selected (task\<lparr>photonSelections := (photonSelections task)\<lparr>rejectPosITSafterburner := False\<rparr>\<rparr>)
             K v0 collision True
   \<and> isV0Selected task K (v0\<lparr>negTrackExtra := (negTrackExtra v0)\<lparr>itsChi2PerNcl := NaN\<rparr>\<rparr>) collision True
         = isV0Selected (task\<lparr>photonSelections := (photonSelections task)\<lparr>rejectNegITSafterburner := False\<rparr>\<rparr>)
             K v0 collision True
   \<and> isV0Selected task K (v0\<lparr>posTrackExtra := (posTrackExtra v0)\<lparr>tpcNSigmaEl := NaN\<rparr>\<rparr>) collision True
         = (isV0Selected (task\<lparr>photonSelections := (photonSelections task)\<lparr>tpcPidNsigmaCut := PInf\<rparr>\<rparr>)
             K v0 collision True
            \<and> \<not> fgt (fabs (tpcNSigmaEl (negTrackExtra v0))) (tpcPidNsigmaCut (photonSelections task)))
   \<and> isV0Selected task K (v0\<lparr>negTrackExtra := (negTrackExtra v0)\<lparr>tpcNSigmaEl := NaN\<rparr>\<rparr>) collision True
         = (isV0Selected (task\<lparr>photonSelections := (photonSelections task)\<lparr>tpcPidNsigmaCut := PInf\<rparr>\<rparr>)
             K v0 collision True
            \<and> \<not> fgt (fabs (tpcNSigmaEl (posTrackExtra v0))) (tpcPidNsigmaCut (photonSelections task)))
   \<and> isV0Selected task K (v0\<lparr>posTrackExtra := (posTrackExtra v0)\<lparr>tpcNSigmaPi := NaN\<rparr>\<rparr>) collision True
         = isV0Selected task K v0 collision True
   \<and> isV0Selected task K (v0\<lparr>negTrackExtra := (negTrackExtra v0)\<lparr>tpcNSigmaPi := NaN\<rparr>\<rparr>) collision True
         = isV0Selected task K v0 collision True
   \<and> (isV0Selected task K v0 collision isPhoton \<longrightarrow>
        isV0Selected task K (v0\<lparr>v0cosPA := NaN\<rparr>) collision isPhoton
         \<and> isV0Selected task K (v0\<lparr>z := NaN\<rparr>) collision isPhoton
         \<and> isV0Selected task K (v0\<lparr>negativeeta := NaN\<rparr>) collision isPhoton
         \<and> isV0Selected task K (v0\<lparr>positiveeta := NaN\<rparr>) collision isPhoton
         \<and> isV0Selected task K (v0\<lparr>V0.v0radius := NaN\<rparr>) collision isPhoton
         \<and> isV0Selected task K (v0\<lparr>V0.dcapostopv := NaN\<rparr>) collision isPhoton
         \<and> isV0Selected task K (v0\<lparr>V0.dcanegtopv := NaN\<rparr>) collision isPhoton
         \<and> isV0Selected task K (v0\<lparr>dcaV0daughters := NaN\<rparr>) collision isPhoton
         \<and> isV0Selected task K (v0\<lparr>V0.dcav0topv := NaN\<rparr>) collision isPhoton
         \<and> isV0Selected task K (v0\<lparr>mGamma := NaN\<rparr>) collision isPhoton
         \<and> isV0Selected task K (v0\<lparr>mK0Short := NaN\<rparr>) collision isPhoton
         \<and> isV0Selected task K (v0\<lparr>mLambda := NaN\<rparr>) collision isPhoton
         \<and> isV0Selected task K (v0\<lparr>posTOFDeltaTK0Pi := NaN\<rparr>) collision isPhoton
         \<and> isV0Selected task K (v0\<lparr>negTOFDeltaTK0Pi := NaN\<rparr>) collision isPhoton
         \<and> isV0Selected task K (v0\<lparr>tofNSigmaK0PiPlus := NaN\<rparr>) collision isPhoton
         \<and> isV0Selected task K (v0\<lparr>tofNSigmaK0PiMinus := NaN\<rparr>) collision isPhoton
         \<and> isV0Selected task K (v0\<lparr>distovertotmom := (\<lambda>x y w. NaN)\<rparr>) collision isPhoton
         \<and> isV0Selected task K (v0\<lparr>qtarm := NaN\<rparr>) collision isPhoton
         \<and> isV0Selected task K (v0\<lparr>alpha := NaN\<rparr>) collision isPhoton
         \<and> isV0Selected task K (v0\<lparr>posTrackExtra := (posTrackExtra v0)\<lparr>itsChi2PerNcl := NaN\<rparr>\<rparr>) collision isPhoton
         \<and> isV0Selected task K (v0\<lparr>negTrackExtra := (negTrackExtra v0)\<lparr>itsChi2PerNcl := NaN\<rparr>\<rparr>) collision isPhoton
         \<and> isV0Selected task K (v0\<lparr>posTrackExtra := (posTrackExtra v0)\<lparr>tpcNSigmaEl := NaN\<rparr>\<rparr>) collision isPhoton
         \<and> isV0Selected task K (v0\<lparr>negTrackExtra := (negTrackExtra v0)\<lparr>tpcNSigmaEl := NaN\<rparr>\<rparr>) collision isPhoton
         \<and> isV0Selected task K (v0\<lparr>posTrackExtra := (posTrackExtra v0)\<lparr>tpcNSigmaPi := NaN\<rparr>\<rparr>) collision isPhoton
         \<and> isV0Selected task K (v0\<lparr>negTrackExtra := (negTrackExtra v0)\<lparr>tpcNSigmaPi := NaN\<rparr>\<rparr>) collision isPhoton)"
proof -
  note stays = nan_keeps_accepted [of task K v0 collision isPhoton]
  show ?thesis
    by (intro conjI impI nan_switches_off_K0 nan_switches_off_photon) (use stays in blast)+
qed

theorem nan_never_rejects_witness:
  "isV0Selected defaultTask sampleConstants (sampleV0\<lparr>v0cosPA := NaN\<rparr>) sampleCollision False
   \<and> isV0Selected defaultTask sampleConstants (sampleV0\<lparr>v0cosPA := NaN\<rparr>) sampleCollision True
   \<and> \<not> isV0Selected defaultTask sampleConstants ((sampleV0\<lparr>V0.v0radius := Fin 0\<rparr>)\<lparr>v0cosPA := NaN\<rparr>)
          sampleCollision False
   \<and> \<not> isV0Selected defaultTask sampleConstants ((sampleV0\<lparr>V0.v0radius := Fin 0\<rparr>)\<lparr>v0cosPA := NaN\<rparr>)
          sampleCollision True
   \<and> isV0Selected defaultTask sampleConstants (sampleV0\<lparr>mK0Short := NaN\<rparr>) sampleCollision False"
proof -
  have switched_off:
    "isV0Selected (defaultTask\<lparr>v0Selections := (v0Selections defaultTask)\<lparr>v0cospa := MInf\<rparr>\<rparr>)
        sampleConstants sampleV0 sampleCollision False"
    "isV0Selected (defaultTask\<lparr>photonSelections := (photonSelections defaultTask)\<lparr>v0cospa := MInf\<rparr>\<rparr>)
        sampleConstants sampleV0 sampleCollision True"
    "\<not> isV0Selected (defaultTask\<lparr>v0Selections := (v0Selections defaultTask)\<lparr>v0cospa := MInf\<rparr>\<rparr>)
        sampleConstants (sampleV0\<lparr>V0.v0radius := Fin 0\<rparr>) sampleCollision False"
    "\<not> isV0Selected (defaultTask\<lparr>photonSelections := (photonSelections defaultTask)\<lparr>v0cospa := MInf\<rparr>\<rparr>)
        sampleConstants (sampleV0\<lparr>V0.v0radius := Fin 0\<rparr>) sampleCollision True"
    "isV0Selected (defaultTask\<lparr>v0Selections := (v0Selections defaultTask)\<lparr>v0MassWindow := PInf\<rparr>\<rparr>)
        sampleConstants sampleV0 sampleCollision False"
    by (simp_all add: isV0Selected_def sample_defs)
  note n1 = nan_never_rejects [of defaultTask sampleConstants sampleV0 sampleCollision False]
  note n2 = nan_never_rejects [of defaultTask sampleConstants "sampleV0\<lparr>V0.v0radius := Fin 0\<rparr>"
      sampleCollision False]
  from n1
  have e1: "isV0Selected defaultTask sampleConstants (sampleV0\<lparr>v0cosPA := NaN\<rparr>) sampleCollision False
       = isV0Selected (defaultTask\<lparr>v0Selections := (v0Selections defaultTask)\<lparr>v0cospa := MInf\<rparr>\<rparr>)
           sampleConstants sampleV0 sampleCollision False"
    by (elim conjE)
  from n1
  have e2: "isV0Selected defaultTask sampleConstants (sampleV0\<lparr>v0cosPA := NaN\<rparr>) sampleCollision True
       = isV0Selected (defaultTask\<lparr>photonSelections := (photonSelections defaultTask)\<lparr>v0cospa := MInf\<rparr>\<rparr>)
           sampleConstants sampleV0 sampleCollision True"
    by (elim conjE)
  from n2
  have e3: "isV0Selected defaultTask sampleConstants ((sampleV0\<lparr>V0.v0radius := Fin 0\<rparr>)\<lparr>v0cosPA := NaN\<rparr>) sampleCollision False
       = isV0Selected (defaultTask\<lparr>v0Selections := (v0Selections defaultTask)\<lparr>v0cospa := MInf\<rparr>\<rparr>)
           sampleConstants (sampleV0\<lparr>V0.v0radius := Fin 0\<rparr>) sampleCollision False"
    by (elim conjE)
  from n2
  have e4: "isV0Selected defaultTask sampleConstants ((sampleV0\<lparr>V0.v0radius := Fin 0\<rparr>)\<lparr>v0cosPA := NaN\<rparr>) sampleCollision True
       = isV0Selected (defaultTask\<lparr>photonSelections := (photonSelections defaultTask)\<lparr>v0cospa := MInf\<rparr>\<rparr>)
           sampleConstants (sampleV0\<lparr>V0.v0radius := Fin 0\<rparr>) sampleCollision True"
    by (elim conjE)
  from n1
  have e5: "isV0Selected defaultTask sampleConstants (sampleV0\<lparr>mK0Short := NaN\<rparr>) sampleCollision False
       = isV0Selected (defaultTask\<lparr>v0Selections := (v0Selections defaultTask)\<lparr>v0MassWindow := PInf\<rparr>\<rparr>)
           sampleConstants sampleV0 sampleCollision False"
    by (elim conjE)
  from e1 e2 e3 e4 e5 switched_off show ?thesis
    by simp
qed

section \<open>The two daughter DCA cuts\<close>

text \<open>
  Claim C8. In both categories the positive daughter's \<open>|DCA to PV|\<close> has a lower bound
  (the candidate is rejected when it is below \<open>dcapostopv\<close>) and the negative daughter's
  has an upper bound (the candidate is rejected when it is above \<open>dcanegtopv\<close>); each
  cut is the only place where the classification reads its threshold, so that the
  classification is the one with the cut switched off (threshold \<open>-\<infinity>\<close>, or \<open>+\<infinity>\<close>)
  together with the comparison. Consequently there is a candidate accepted in both
  categories that is rejected in both once the two DCA magnitudes are raised above
  their thresholds, and that is accepted again when the negative-daughter cut alone
  is switched off.
\<close>

theorem dca_cuts_opposite_directions:
  "(flt (fabs (V0.dcapostopv v0)) (Selections.dcapostopv (v0Selections task)) \<longrightarrow>
      \<not> isV0Selected task K v0 collision False)
   \<and> (fgt (fabs (V0.dcanegtopv v0)) (Selections.dcanegtopv (v0Selections task)) \<longrightarrow>
      \<not> isV0Selected task K v0 collision False)
   \<and> (flt (fabs (V0.dcapostopv v0)) (Selections.dcapostopv (photonSelections task)) \<longrightarrow>
      \<not> isV0Selected task K v0 collision True)
   \<and> (fgt (fabs (V0.dcanegtopv v0)) (Selections.dcanegtopv (photonSelections task)) \<longrightarrow>
      \<not> isV0Selected task K v0 collision True)
   \<and> isV0Selected task K v0 collision False
       = (isV0Selected (task\<lparr>v0Selections := (v0Selections task)\<lparr>Selections.dcapostopv := MInf\<rparr>\<rparr>)
            K v0 collision False
          \<and> \<not> flt (fabs (V0.dcapostopv v0)) (Selections.dcapostopv (v0Selections task)))
   \<and> isV0Selected task K v0 collision False
       = (isV0Selected (task\<lparr>v0Selections := (v0Selections task)\<lparr>Selections.dcanegtopv := PInf\<rparr>\<rparr>)
            K v0 collision False
          \<and> \<not> fgt (fabs (V0.dcanegtopv v0)) (Selections.dcanegtopv (v0Selections task)))
   \<and> isV0Selected task K v0 collision True
       = (isV0Selected (task\<lparr>photonSelections := (photonSelections task)\<lparr>Selections.dcapostopv := MInf\<rparr>\<rparr>)
            K v0 collision True
          \<and> \<not> flt (fabs (V0.dcapostopv v0)) (Selections.dcapostopv (photonSelections task)))
   \<and> isV0Selected task K v0 collision True
       = (isV0Selected (task\<lparr>photonSelections := (photonSelections task)\<lparr>Selections.dcanegtopv := PInf\<rparr>\<rparr>)
            K v0 collision True
          \<and> \<not> fgt (fabs (V0.dcanegtopv v0)) (Selections.dcanegtopv (photonSelections task)))
   \<and> (\<exists>c p n.
         isV0Selected defaultTask sampleConstants c sampleCollision False
       \<and> isV0Selected defaultTask sampleConstants c sampleCollision True
       \<and> fgt (fabs p) (Selections.dcapostopv (v0Selections defaultTask))
       \<and> fgt (fabs n) (Selections.dcanegtopv (v0Selections defaultTask))
       \<and> fgt (fabs p) (Selections.dcapostopv (photonSelections defaultTask))
       \<and> fgt (fabs n) (Selections.dcanegtopv (photonSelections defaultTask))
       \<and> \<not> isV0Selected defaultTask sampleConstants (c\<lparr>V0.dcapostopv := p, V0.dcanegtopv := n\<rparr>)
              sampleCollision False
       \<and> \<not> isV0Selected defaultTask sampleConstants (c\<lparr>V0.dcapostopv := p, V0.dcanegtopv := n\<rparr>)
              sampleCollision True
       \<and> isV0Selected (defaultTask\<lparr>v0Selections := (v0Selections defaultTask)\<lparr>Selections.dcanegtopv := PInf\<rparr>\<rparr>)
            sampleConstants (c\<lparr>V0.dcapostopv := p, V0.dcanegtopv := n\<rparr>) sampleCollision False
       \<and> isV0Selected (defaultTask\<lparr>photonSelections := (photonSelections defaultTask)\<lparr>Selections.dcanegtopv := PInf\<rparr>\<rparr>)
            sampleConstants (c\<lparr>V0.dcapostopv := p, V0.dcanegtopv := n\<rparr>) sampleCollision True)"
proof -
  have general:
    "(flt (fabs (V0.dcapostopv v0)) (Selections.dcapostopv (v0Selections task)) \<longrightarrow>
        \<not> isV0Selected task K v0 collision False)
     \<and> (fgt (fabs (V0.dcanegtopv v0)) (Selections.dcanegtopv (v0Selections task)) \<longrightarrow>
        \<not> isV0Selected task K v0 collision False)
     \<and> (flt (fabs (V0.dcapostopv v0)) (Selections.dcapostopv (photonSelections task)) \<longrightarrow>
        \<not> isV0Selected task K v0 collision True)
     \<and> (fgt (fabs (V0.dcanegtopv v0)) (Selections.dcanegtopv (photonSelections task)) \<longrightarrow>
        \<not> isV0Selected task K v0 collision True)"
    by (simp add: isV0Selected_K0_iff isV0Selected_photon_iff)
  have k0_pos: "isV0Selected task K v0 collision False
       = (isV0Selected (task\<lparr>v0Selections := (v0Selections task)\<lparr>Selections.dcapostopv := MInf\<rparr>\<rparr>)
            K v0 collision False
          \<and> \<not> flt (fabs (V0.dcapostopv v0)) (Selections.dcapostopv (v0Selections task)))"
    by (simp add: isV0Selected_K0_iff) blast
  have k0_neg: "isV0Selected task K v0 collision False
       = (isV0Selected (task\<lparr>v0Selections := (v0Selections task)\<lparr>Selections.dcanegtopv := PInf\<rparr>\<rparr>)
            K v0 collision False
          \<and> \<not> fgt (fabs (V0.dcanegtopv v0)) (Selections.dcanegtopv (v0Selections task)))"
    by (simp add: isV0Selected_K0_iff) blast
  have ph_pos: "isV0Selected task K v0 collision True
       = (isV0Selected (task\<lparr>photonSelections := (photonSelections task)\<lparr>Selections.dcapostopv := MInf\<rparr>\<rparr>)
            K v0 collision True
          \<and> \<not> flt (fabs (V0.dcapostopv v0)) (Selections.dcapostopv (photonSelections task)))"
    by (simp add: isV0Selected_photon_iff) blast
  have ph_neg: "isV0Selected task K v0 collision True
       = (isV0Selected (task\<lparr>photonSelections := (photonSelections task)\<lparr>Selections.dcanegtopv := PInf\<rparr>\<rparr>)
            K v0 collision True
          \<and> \<not> fgt (fabs (V0.dcanegtopv v0)) (Selections.dcanegtopv (photonSelections task)))"
    by (simp add: isV0Selected_photon_iff) blast
  have raised:
    "isV0Selected defaultTask sampleConstants sampleV0 sampleCollision False
       \<and> isV0Selected defaultTask sampleConstants sampleV0 sampleCollision True
       \<and> fgt (fabs (Fin 1)) (Selections.dcapostopv (v0Selections defaultTask))
       \<and> fgt (fabs (Fin 1)) (Selections.dcanegtopv (v0Selections defaultTask))
       \<and> fgt (fabs (Fin 1)) (Selections.dcapostopv (photonSelections defaultTask))
       \<and> fgt (fabs (Fin 1)) (Selections.dcanegtopv (photonSelections defaultTask))
       \<and> \<not> isV0Selected defaultTask sampleConstants (sampleV0\<lparr>V0.dcapostopv := Fin 1, V0.dcanegtopv := Fin 1\<rparr>)
              sampleCollision False
       \<and> \<not> isV0Selected defaultTask sampleConstants (sampleV0\<lparr>V0.dcapostopv := Fin 1, V0.dcanegtopv := Fin 1\<rparr>)
              sampleCollision True
       \<and> isV0Selected (defaultTask\<lparr>v0Selections := (v0Selections defaultTask)\<lparr>Selections.dcanegtopv := PInf\<rparr>\<rparr>)
            sampleConstants (sampleV0\<lparr>V0.dcapostopv := Fin 1, V0.dcanegtopv := Fin 1\<rparr>) sampleCollision False
       \<and> isV0Selected (defaultTask\<lparr>photonSelections := (photonSelections defaultTask)\<lparr>Selections.dcanegtopv := PInf\<rparr>\<rparr>)
            sampleConstants (sampleV0\<lparr>V0.dcapostopv := Fin 1, V0.dcanegtopv := Fin 1\<rparr>) sampleCollision True"
    by (simp add: isV0Selected_def sample_defs)
  from raised have ex: "\<exists>c p n.
         isV0Selected defaultTask sampleConstants c sampleCollision False
       \<and> isV0Selected defaultTask sampleConstants c sampleCollision True
       \<and> fgt (fabs p) (Selections.dcapostopv (v0Selections defaultTask))
       \<and> fgt (fabs n) (Selections.dcanegtopv (v0Selections defaultTask))
       \<and> fgt (fabs p) (Selections.dcapostopv (photonSelections defaultTask))
       \<and> fgt (fabs n) (Selections.dcanegtopv (photonSelections defaultTask))
       \<and> \<not> isV0Selected defaultTask sampleConstants (c\<lparr>V0.dcapostopv := p, V0.dcanegtopv := n\<rparr>)
              sampleCollision False
       \<and> \<not> isV0Selected defaultTask sampleConstants (c\<lparr>V0.dcapostopv := p, V0.dcanegtopv := n\<rparr>)
              sampleCollision True
       \<and> isV0Selected (defaultTask\<lparr>v0Selections := (v0Selections defaultTask)\<lparr>Selections.dcanegtopv := PInf\<rparr>\<rparr>)
            sampleConstants (c\<lparr>V0.dcapostopv := p, V0.dcanegtopv := n\<rparr>) sampleCollision False
       \<and> isV0Selected (defaultTask\<lparr>photonSelections := (photonSelections defaultTask)\<lparr>Selections.dcanegtopv := PInf\<rparr>\<rparr>)
            sampleConstants (c\<lparr>V0.dcapostopv := p, V0.dcanegtopv := n\<rparr>) sampleCollision True"
    by (intro exI)
  from general k0_pos k0_neg ph_pos ph_neg ex show ?thesis
    by (intro conjI) (elim conjE, assumption)+
qed

theorem dca_cuts_opposite_directions_witness:
  "flt (fabs (V0.dcapostopv (sampleV0\<lparr>V0.dcapostopv := Fin (1 / 64)\<rparr>)))
       (Selections.dcapostopv (v0Selections defaultTask))
   \<and> flt (fabs (V0.dcapostopv (sampleV0\<lparr>V0.dcapostopv := Fin (1 / 64)\<rparr>)))
       (Selections.dcapostopv (photonSelections defaultTask))
   \<and> \<not> isV0Selected defaultTask sampleConstants (sampleV0\<lparr>V0.dcapostopv := Fin (1 / 64)\<rparr>) sampleCollision False
   \<and> \<not> isV0Selected defaultTask sampleConstants (sampleV0\<lparr>V0.dcapostopv := Fin (1 / 64)\<rparr>) sampleCollision True
   \<and> fgt (fabs (V0.dcanegtopv (sampleV0\<lparr>V0.dcanegtopv := Fin 1\<rparr>)))
       (Selections.dcanegtopv (v0Selections defaultTask))
   \<and> fgt (fabs (V0.dcanegtopv (sampleV0\<lparr>V0.dcanegtopv := Fin 1\<rparr>)))
       (Selections.dcanegtopv (photonSelections defaultTask))
   \<and> \<not> isV0Selected defaultTask sampleConstants (sampleV0\<lparr>V0.dcanegtopv := Fin 1\<rparr>) sampleCollision False
   \<and> \<not> isV0Selected defaultTask sampleConstants (sampleV0\<lparr>V0.dcanegtopv := Fin 1\<rparr>) sampleCollision True"
proof -
  have low: "flt (fabs (V0.dcapostopv (sampleV0\<lparr>V0.dcapostopv := Fin (1 / 64)\<rparr>)))
       (Selections.dcapostopv (v0Selections defaultTask))
     \<and> flt (fabs (V0.dcapostopv (sampleV0\<lparr>V0.dcapostopv := Fin (1 / 64)\<rparr>)))
       (Selections.dcapostopv (photonSelections defaultTask))"
    and high: "fgt (fabs (V0.dcanegtopv (sampleV0\<lparr>V0.dcanegtopv := Fin 1\<rparr>)))
       (Selections.dcanegtopv (v0Selections defaultTask))
     \<and> fgt (fabs (V0.dcanegtopv (sampleV0\<lparr>V0.dcanegtopv := Fin 1\<rparr>)))
       (Selections.dcanegtopv (photonSelections defaultTask))"
    by (simp_all add: sample_defs)
  from low high
    dca_cuts_opposite_directions [of "sampleV0\<lparr>V0.dcapostopv := Fin (1 / 64)\<rparr>" defaultTask
      sampleConstants sampleCollision]
    dca_cuts_opposite_directions [of "sampleV0\<lparr>V0.dcanegtopv := Fin 1\<rparr>" defaultTask
      sampleConstants sampleCollision]
  show ?thesis by blast
qed

section \<open>The conversion-point z cut\<close>

text \<open>
  Claim C9. The photon-like classification rejects every candidate whose signed
  conversion-point \<open>z\<close> is above \<open>photonZMax\<close>. The comparison is on the signed value:
  a candidate whose \<open>z\<close> is not above \<open>photonZMax\<close> gets the result of the
  classification with the cut switched off (\<open>photonZMax = +\<infinity>\<close>), and this is the case
  of every \<open>z\<close> at or below a finite \<open>photonZMax\<close>, however large its magnitude, and of
  \<open>z = -\<infinity>\<close>. The K0-short-like classification reads neither \<open>z\<close> nor \<open>photonZMax\<close>.
\<close>

theorem photon_z_cut_signed:
  "(fgt (z v0) (photonZMax (photonSelections task)) \<longrightarrow> \<not> isV0Selected task K v0 collision True)
   \<and> (\<not> fgt (z v0) (photonZMax (photonSelections task)) \<longrightarrow>
        isV0Selected task K v0 collision True
          = isV0Selected (task\<lparr>photonSelections := (photonSelections task)\<lparr>photonZMax := PInf\<rparr>\<rparr>)
              K v0 collision True)
   \<and> (\<forall>r m. z v0 = Fin r \<and> photonZMax (photonSelections task) = Fin m \<and> r \<le> m \<longrightarrow>
        isV0Selected task K v0 collision True
          = isV0Selected (task\<lparr>photonSelections := (photonSelections task)\<lparr>photonZMax := PInf\<rparr>\<rparr>)
              K v0 collision True)
   \<and> (z v0 = MInf \<longrightarrow>
        isV0Selected task K v0 collision True
          = isV0Selected (task\<lparr>photonSelections := (photonSelections task)\<lparr>photonZMax := PInf\<rparr>\<rparr>)
              K v0 collision True)
   \<and> (\<forall>w. isV0Selected task K (v0\<lparr>z := w\<rparr>) collision False = isV0Selected task K v0 collision False)
   \<and> (\<forall>q. isV0Selected (task\<lparr>photonSelections := (photonSelections task)\<lparr>photonZMax := q\<rparr>\<rparr>)
              K v0 collision False
            = isV0Selected task K v0 collision False)"
proof (intro conjI impI allI)
  assume "fgt (z v0) (photonZMax (photonSelections task))"
  then show "\<not> isV0Selected task K v0 collision True"
    by (simp add: isV0Selected_photon_iff)
next
  assume "\<not> fgt (z v0) (photonZMax (photonSelections task))"
  then show "isV0Selected task K v0 collision True
          = isV0Selected (task\<lparr>photonSelections := (photonSelections task)\<lparr>photonZMax := PInf\<rparr>\<rparr>)
              K v0 collision True"
    by (simp add: isV0Selected_photon_iff)
next
  fix r m
  assume "z v0 = Fin r \<and> photonZMax (photonSelections task) = Fin m \<and> r \<le> m"
  then show "isV0Selected task K v0 collision True
          = isV0Selected (task\<lparr>photonSelections := (photonSelections task)\<lparr>photonZMax := PInf\<rparr>\<rparr>)
              K v0 collision True"
    by (simp add: isV0Selected_photon_iff)
next
  assume "z v0 = MInf"
  then show "isV0Selected task K v0 collision True
          = isV0Selected (task\<lparr>photonSelections := (photonSelections task)\<lparr>photonZMax := PInf\<rparr>\<rparr>)
              K v0 collision True"
    by (simp add: isV0Selected_photon_iff)
next
  fix w
  show "isV0Selected task K (v0\<lparr>z := w\<rparr>) collision False = isV0Selected task K v0 collision False"
    by (simp add: isV0Selected_K0_iff)
next
  fix q
  show "isV0Selected (task\<lparr>photonSelections := (photonSelections task)\<lparr>photonZMax := q\<rparr>\<rparr>)
              K v0 collision False
            = isV0Selected task K v0 collision False"
    by (simp add: isV0Selected_K0_iff)
qed

theorem photon_z_cut_signed_witness:
  "fgt (z (sampleV0\<lparr>z := Fin 250\<rparr>)) (photonZMax (photonSelections defaultTask))
   \<and> \<not> isV0Selected defaultTask sampleConstants (sampleV0\<lparr>z := Fin 250\<rparr>) sampleCollision True
   \<and> z (sampleV0\<lparr>z := Fin (- 1000000)\<rparr>) = Fin (- 1000000)
   \<and> photonZMax (photonSelections defaultTask) = Fin 240
   \<and> \<not> fgt (z (sampleV0\<lparr>z := Fin (- 1000000)\<rparr>)) (photonZMax (photonSelections defaultTask))
   \<and> isV0Selected defaultTask sampleConstants (sampleV0\<lparr>z := Fin (- 1000000)\<rparr>) sampleCollision True
   \<and> z (sampleV0\<lparr>z := MInf\<rparr>) = MInf
   \<and> isV0Selected defaultTask sampleConstants (sampleV0\<lparr>z := MInf\<rparr>) sampleCollision True
   \<and> isV0Selected defaultTask sampleConstants (sampleV0\<lparr>z := Fin 250\<rparr>) sampleCollision False"
proof -
  have above: "fgt (z (sampleV0\<lparr>z := Fin 250\<rparr>)) (photonZMax (photonSelections defaultTask))"
    by (simp add: sample_defs)
  have below: "z (sampleV0\<lparr>z := Fin (- 1000000)\<rparr>) = Fin (- 1000000)
      \<and> photonZMax (photonSelections defaultTask) = Fin 240 \<and> (- 1000000 :: real) \<le> 240"
    by (simp add: sample_defs)
  have notabove: "\<not> fgt (z (sampleV0\<lparr>z := Fin (- 1000000)\<rparr>)) (photonZMax (photonSelections defaultTask))"
    by (simp add: sample_defs)
  have minf: "z (sampleV0\<lparr>z := MInf\<rparr>) = MInf"
    by simp
  have off1: "isV0Selected (defaultTask\<lparr>photonSelections := (photonSelections defaultTask)\<lparr>photonZMax := PInf\<rparr>\<rparr>)
      sampleConstants (sampleV0\<lparr>z := Fin (- 1000000)\<rparr>) sampleCollision True"
    by (simp add: isV0Selected_def sample_defs)
  have off2: "isV0Selected (defaultTask\<lparr>photonSelections := (photonSelections defaultTask)\<lparr>photonZMax := PInf\<rparr>\<rparr>)
      sampleConstants (sampleV0\<lparr>z := MInf\<rparr>) sampleCollision True"
    by (simp add: isV0Selected_def sample_defs)
  note a = photon_z_cut_signed [of "sampleV0\<lparr>z := Fin 250\<rparr>" defaultTask sampleConstants sampleCollision]
  note b = photon_z_cut_signed [of "sampleV0\<lparr>z := Fin (- 1000000)\<rparr>" defaultTask sampleConstants sampleCollision]
  note c = photon_z_cut_signed [of "sampleV0\<lparr>z := MInf\<rparr>" defaultTask sampleConstants sampleCollision]
  note d = photon_z_cut_signed [of sampleV0 defaultTask sampleConstants sampleCollision]
  from a above have r1: "\<not> isV0Selected defaultTask sampleConstants (sampleV0\<lparr>z := Fin 250\<rparr>) sampleCollision True"
    by blast
  from b below off1 have r2: "isV0Selected defaultTask sampleConstants (sampleV0\<lparr>z := Fin (- 1000000)\<rparr>) sampleCollision True"
    by blast
  from c minf off2 have r3: "isV0Selected defaultTask sampleConstants (sampleV0\<lparr>z := MInf\<rparr>) sampleCollision True"
    by blast
  from d sampleV0_K0 have r4: "isV0Selected defaultTask sampleConstants (sampleV0\<lparr>z := Fin 250\<rparr>) sampleCollision False"
    by blast
  from above below notabove minf r1 r2 r3 r4 show ?thesis
    by blast
qed

section \<open>The photon-like decision from scores\<close>

text \<open>
  Claim C10. With \<open>useGammaScores\<close> set and \<open>calculateGammaScores\<close> not set, the
  photon-like decision of \<open>analyseV0Candidate\<close> is \<open>antiLambdaBDTScore > thresholdGamma\<close>,
  with the anti-Lambda score of the derived data: this is the value of the local
  \<open>passGammaSelections\<close>, it is what a returning call leaves in the photon mask at the
  candidate's local index, and it is the same for any two candidates with the same
  anti-Lambda score, whatever their other fields, the collision or the transverse
  momentum passed in. The call returns when the local index lies inside both masks and
  the K0-short score is not computed by a model.
\<close>

theorem gamma_score_mode:
  assumes "useGammaScores (mlConfigurations task)"
      and "\<not> calculateGammaScores (mlConfigurations task)"
  shows "passGammaSelections task K M v0 collision pT
           = Inr (fgt (antiLambdaBDTScore v0) (thresholdGamma (mlConfigurations task)))
       \<and> (\<forall>selK selG off selK' selG'.
             analyseV0Candidate task K M v0 collision pT selK selG off = Inr (selK', selG') \<longrightarrow>
             vecAt selG' (globalIndex v0 - off)
               = Inr (fgt (antiLambdaBDTScore v0) (thresholdGamma (mlConfigurations task))))
       \<and> (\<forall>selK selG off.
             0 \<le> globalIndex v0 - off \<and> globalIndex v0 - off < int (length selK)
             \<and> globalIndex v0 - off < int (length selG)
             \<and> \<not> calculateK0ShortScores (mlConfigurations task) \<longrightarrow>
             (\<exists>selK' selG'. analyseV0Candidate task K M v0 collision pT selK selG off = Inr (selK', selG')))
       \<and> (\<forall>v0' collision' pT'.
             antiLambdaBDTScore v0' = antiLambdaBDTScore v0 \<longrightarrow>
             passGammaSelections task K M v0' collision' pT' = passGammaSelections task K M v0 collision pT)"
proof -
  have pass: "passGammaSelections task K M v0 collision pT
           = Inr (fgt (antiLambdaBDTScore v0) (thresholdGamma (mlConfigurations task)))"
    using assms by (simp add: passGammaSelections_def)
  have written: "vecAt selG' (globalIndex v0 - off)
               = Inr (fgt (antiLambdaBDTScore v0) (thresholdGamma (mlConfigurations task)))"
    if "analyseV0Candidate task K M v0 collision pT selK selG off = Inr (selK', selG')"
    for selK selG :: "bool list" and off selK' selG'
    using that
    by (auto simp add: analyseV0Candidate_def pass vecPut_def vecAt_def
        split: sum.splits if_splits)
  have returns: "\<exists>selK' selG'. analyseV0Candidate task K M v0 collision pT selK selG off = Inr (selK', selG')"
    if "0 \<le> globalIndex v0 - off \<and> globalIndex v0 - off < int (length selK)
             \<and> globalIndex v0 - off < int (length selG)
             \<and> \<not> calculateK0ShortScores (mlConfigurations task)"
    for selK selG :: "bool list" and off
    using that
    by (simp add: analyseV0Candidate_def pass passK0ShortSelections_def vecPut_def)
  have same: "passGammaSelections task K M v0' collision' pT' = passGammaSelections task K M v0 collision pT"
    if "antiLambdaBDTScore v0' = antiLambdaBDTScore v0" for v0' collision' pT'
    using that assms by (simp add: passGammaSelections_def)
  from pass written returns same show ?thesis
    by blast
qed

theorem gamma_score_mode_witness:
  "useGammaScores (mlConfigurations (gammaScoreTask (Fin (1 / 2))))
   \<and> \<not> calculateGammaScores (mlConfigurations (gammaScoreTask (Fin (1 / 2))))
   \<and> passGammaSelections (gammaScoreTask (Fin (1 / 2))) sampleConstants sampleModels
        (sampleV0\<lparr>antiLambdaBDTScore := Fin (13421773 / 2 ^ 24), v0cosPA := Fin 0\<rparr>) sampleCollision (Fin 1) = Inr True
   \<and> passGammaSelections (gammaScoreTask (Fin (7549747 / 2 ^ 23))) sampleConstants sampleModels
        (sampleV0\<lparr>antiLambdaBDTScore := Fin (13421773 / 2 ^ 24)\<rparr>) sampleCollision (Fin 1) = Inr False
   \<and> analyseV0Candidate (gammaScoreTask (Fin (1 / 2))) sampleConstants sampleModels
        (sampleV0\<lparr>antiLambdaBDTScore := Fin (13421773 / 2 ^ 24), v0cosPA := Fin 0\<rparr>) sampleCollision (Fin 1)
        [False] [False] 0 = Inr ([False], [True])"
proof -
  have m5: "useGammaScores (mlConfigurations (gammaScoreTask (Fin (1 / 2))))"
    and c5: "\<not> calculateGammaScores (mlConfigurations (gammaScoreTask (Fin (1 / 2))))"
    and m9: "useGammaScores (mlConfigurations (gammaScoreTask (Fin (7549747 / 2 ^ 23))))"
    and c9: "\<not> calculateGammaScores (mlConfigurations (gammaScoreTask (Fin (7549747 / 2 ^ 23))))"
    by (simp_all add: gammaScoreTask_def sample_defs)
  have p5: "passGammaSelections (gammaScoreTask (Fin (1 / 2))) sampleConstants sampleModels
        (sampleV0\<lparr>antiLambdaBDTScore := Fin (13421773 / 2 ^ 24), v0cosPA := Fin 0\<rparr>) sampleCollision (Fin 1) = Inr True"
    using gamma_score_mode [OF m5 c5, of sampleConstants sampleModels
        "sampleV0\<lparr>antiLambdaBDTScore := Fin (13421773 / 2 ^ 24), v0cosPA := Fin 0\<rparr>" sampleCollision "Fin 1"]
    by (simp add: gammaScoreTask_def sample_defs)
  have p9: "passGammaSelections (gammaScoreTask (Fin (7549747 / 2 ^ 23))) sampleConstants sampleModels
        (sampleV0\<lparr>antiLambdaBDTScore := Fin (13421773 / 2 ^ 24)\<rparr>) sampleCollision (Fin 1) = Inr False"
    using gamma_score_mode [OF m9 c9, of sampleConstants sampleModels
        "sampleV0\<lparr>antiLambdaBDTScore := Fin (13421773 / 2 ^ 24)\<rparr>" sampleCollision "Fin 1"]
    by (simp add: gammaScoreTask_def sample_defs)
  have a5: "analyseV0Candidate (gammaScoreTask (Fin (1 / 2))) sampleConstants sampleModels
        (sampleV0\<lparr>antiLambdaBDTScore := Fin (13421773 / 2 ^ 24), v0cosPA := Fin 0\<rparr>) sampleCollision (Fin 1)
        [False] [False] 0 = Inr ([False], [True])"
    by (simp add: analyseV0Candidate_def passGammaSelections_def passK0ShortSelections_def vecPut_def
        isV0Selected_def gammaScoreTask_def sample_defs)
  from m5 c5 p5 p9 a5 show ?thesis by blast
qed

section \<open>The rapidity gate of the pair\<close>

text \<open>
  Counterexample to claim C5. Under the default configuration (\<open>doMCAssociation\<close> set)
  two candidates of a type without MC information form a pair of rapidity 2, above the
  \<open>rapidityCut\<close> of 0.5, and \<open>analyseV0PairCandidate\<close> fills the histograms with it.
\<close>

theorem rapidity_not_gated_under_mc_association:
  "doMCAssociation defaultTask
   \<and> v0MCCore sampleV0 = None \<and> v0MCCore sampleGamma = None
   \<and> fgt (fabs (pairRapidity sampleConstants sampleRecoDecay sampleV0 sampleGamma)) (rapidityCut defaultTask)
   \<and> analyseV0PairCandidate defaultTask sampleConstants sampleRecoDecay sampleCollision
        sampleV0 sampleGamma (Fin 50) 255
       = [Fill3 ''K0sGamma/h3dMassK0sGamma'' (Fin 50) (Fin 1) (Fin (57 / 64)), QAplot 0 1 1]"
  by (simp add: analyseV0PairCandidate_def mainFills_def pairRapidity_def pairPt_def pairInvMass_def
      sampleGamma_def sampleRecoDecay_def sample_defs)

text \<open>
  Claim C5, amended. The rapidity gate is tied to the switch \<open>doMCAssociation\<close>, not to
  the presence of MC information. With the switch off, \<open>analyseV0PairCandidate\<close> fills
  nothing for a pair with \<open>|rapidity| > rapidityCut\<close> and makes its fills for any other
  pair, so no pair above the window is reported. With the switch on and no MC
  information, every pair is reported, whatever its rapidity.
\<close>

theorem rapidity_gate:
  "(\<not> doMCAssociation task \<longrightarrow>
      analyseV0PairCandidate task K R collision k0short gamma centrality gapSide
        = (if fgt (fabs (pairRapidity K R k0short gamma)) (rapidityCut task) then []
           else mainFills task K R k0short gamma centrality gapSide))
   \<and> (\<not> doMCAssociation task
        \<and> analyseV0PairCandidate task K R collision k0short gamma centrality gapSide \<noteq> [] \<longrightarrow>
      \<not> fgt (fabs (pairRapidity K R k0short gamma)) (rapidityCut task))
   \<and> (doMCAssociation task \<and> v0MCCore k0short = None \<longrightarrow>
      analyseV0PairCandidate task K R collision k0short gamma centrality gapSide
        = mainFills task K R k0short gamma centrality gapSide)
   \<and> mainFills task K R k0short gamma centrality gapSide \<noteq> []"
  by (simp add: analyseV0PairCandidate_def mainFills_def)

theorem rapidity_gate_witness:
  "\<not> doMCAssociation (defaultTask\<lparr>doMCAssociation := False\<rparr>)
   \<and> fgt (fabs (pairRapidity sampleConstants sampleRecoDecay sampleV0 sampleGamma))
       (rapidityCut (defaultTask\<lparr>doMCAssociation := False\<rparr>))
   \<and> analyseV0PairCandidate (defaultTask\<lparr>doMCAssociation := False\<rparr>) sampleConstants sampleRecoDecay
        sampleCollision sampleV0 sampleGamma (Fin 50) 255 = []
   \<and> \<not> fgt (fabs (pairRapidity sampleConstants sampleRecoDecay sampleV0 sampleGamma))
         (rapidityCut (defaultTask\<lparr>doMCAssociation := False, rapidityCut := Fin 3\<rparr>))
   \<and> analyseV0PairCandidate (defaultTask\<lparr>doMCAssociation := False, rapidityCut := Fin 3\<rparr>) sampleConstants
        sampleRecoDecay sampleCollision sampleV0 sampleGamma (Fin 50) 255 \<noteq> []
   \<and> doMCAssociation defaultTask \<and> v0MCCore sampleV0 = None
   \<and> analyseV0PairCandidate defaultTask sampleConstants sampleRecoDecay sampleCollision
        sampleV0 sampleGamma (Fin 50) 255 \<noteq> []"
proof -
  have off: "\<not> doMCAssociation (defaultTask\<lparr>doMCAssociation := False\<rparr>)"
    and off3: "\<not> doMCAssociation (defaultTask\<lparr>doMCAssociation := False, rapidityCut := Fin 3\<rparr>)"
    and on: "doMCAssociation defaultTask \<and> v0MCCore sampleV0 = None"
    by (simp_all add: sample_defs)
  have above: "fgt (fabs (pairRapidity sampleConstants sampleRecoDecay sampleV0 sampleGamma))
       (rapidityCut (defaultTask\<lparr>doMCAssociation := False\<rparr>))"
    and inside: "\<not> fgt (fabs (pairRapidity sampleConstants sampleRecoDecay sampleV0 sampleGamma))
         (rapidityCut (defaultTask\<lparr>doMCAssociation := False, rapidityCut := Fin 3\<rparr>))"
    by (simp_all add: pairRapidity_def sampleRecoDecay_def sample_defs)
  note g1 = rapidity_gate [of "defaultTask\<lparr>doMCAssociation := False\<rparr>" sampleConstants sampleRecoDecay
      sampleCollision sampleV0 sampleGamma "Fin 50" 255]
  note g2 = rapidity_gate [of "defaultTask\<lparr>doMCAssociation := False, rapidityCut := Fin 3\<rparr>" sampleConstants
      sampleRecoDecay sampleCollision sampleV0 sampleGamma "Fin 50" 255]
  note g3 = rapidity_gate [of defaultTask sampleConstants sampleRecoDecay
      sampleCollision sampleV0 sampleGamma "Fin 50" 255]
  from g1 off above have r1: "analyseV0PairCandidate (defaultTask\<lparr>doMCAssociation := False\<rparr>) sampleConstants
        sampleRecoDecay sampleCollision sampleV0 sampleGamma (Fin 50) 255 = []"
    by metis
  from g2 off3 inside have r2: "analyseV0PairCandidate (defaultTask\<lparr>doMCAssociation := False, rapidityCut := Fin 3\<rparr>)
        sampleConstants sampleRecoDecay sampleCollision sampleV0 sampleGamma (Fin 50) 255 \<noteq> []"
    by metis
  from g3 on have r3: "analyseV0PairCandidate defaultTask sampleConstants sampleRecoDecay sampleCollision
        sampleV0 sampleGamma (Fin 50) 255 \<noteq> []"
    by metis
  from off above r1 inside r2 on r3 show ?thesis by blast
qed

section \<open>The pairs that the two loops form\<close>

lemma checkTrackIndices_iff:
  "checkTrackIndices k0short gamma =
     (posTrackExtraId k0short \<noteq> posTrackExtraId gamma
      \<and> posTrackExtraId k0short \<noteq> negTrackExtraId gamma
      \<and> negTrackExtraId k0short \<noteq> posTrackExtraId gamma
      \<and> negTrackExtraId k0short \<noteq> negTrackExtraId gamma)"
  by (simp add: checkTrackIndices_def)

text \<open>Whatever the masks, a pair that the loops form has passed every test of the loop body.\<close>

lemma gammaLoop_member:
  "gammaLoop off selG k gs = Inr ps \<Longrightarrow> (a, b) \<in> set ps \<Longrightarrow>
     a = k \<and> b \<in> set gs \<and> vecAt selG (globalIndex b - off) = Inr True
     \<and> globalIndex k \<noteq> globalIndex b \<and> checkTrackIndices k b"
proof (induction gs arbitrary: ps)
  case Nil
  then show ?case by simp
next
  case (Cons g gs)
  from Cons.prems show ?case
    by (auto split: sum.splits if_splits dest: Cons.IH)
qed

lemma v0Loop_member:
  "v0Loop off selK selG full ks = Inr ps \<Longrightarrow> (a, b) \<in> set ps \<Longrightarrow>
     a \<in> set ks \<and> vecAt selK (globalIndex a - off) = Inr True
     \<and> b \<in> set full \<and> vecAt selG (globalIndex b - off) = Inr True
     \<and> globalIndex a \<noteq> globalIndex b \<and> checkTrackIndices a b"
proof (induction ks arbitrary: ps)
  case Nil
  then show ?case by simp
next
  case (Cons k ks)
  from Cons.prems show ?case
    by (auto split: sum.splits if_splits dest: Cons.IH gammaLoop_member)
qed

text \<open>With every local index inside the masks, the loops return, and what they return is a comprehension.\<close>

lemma gammaLoop_in_range:
  "\<forall>g \<in> set gs. 0 \<le> globalIndex g - off \<and> globalIndex g - off < int (length selG) \<Longrightarrow>
   gammaLoop off selG k gs =
     Inr (map (Pair k)
           (filter (\<lambda>g. selG ! nat (globalIndex g - off) \<and> globalIndex k \<noteq> globalIndex g
                        \<and> checkTrackIndices k g) gs))"
  by (induction gs) (auto simp add: vecAt_def)

lemma v0Loop_in_range:
  "\<forall>k \<in> set ks. 0 \<le> globalIndex k - off \<and> globalIndex k - off < int (length selK) \<Longrightarrow>
   \<forall>g \<in> set full. 0 \<le> globalIndex g - off \<and> globalIndex g - off < int (length selG) \<Longrightarrow>
   v0Loop off selK selG full ks =
     Inr (concat (map (\<lambda>k. map (Pair k)
                    (filter (\<lambda>g. selG ! nat (globalIndex g - off) \<and> globalIndex k \<noteq> globalIndex g
                                 \<and> checkTrackIndices k g) full))
                  (filter (\<lambda>k. selK ! nat (globalIndex k - off)) ks)))"
  by (induction ks) (auto simp add: vecAt_def gammaLoop_in_range)

text \<open>Facts about a slice whose rows carry their local indices.\<close>

lemma localIndexed_nth:
  assumes "localIndexed T" and "i < length (rows T)"
  shows "globalIndex (rows T ! i) = offset T + int i"
proof -
  have "map globalIndex (rows T) ! i = map (\<lambda>i. offset T + int i) [0..<length (rows T)] ! i"
    using assms(1) by (simp add: localIndexed_def)
  with assms(2) show ?thesis by simp
qed

lemma localIndexed_range:
  assumes "localIndexed T" and "r \<in> set (rows T)"
  shows "0 \<le> globalIndex r - offset T \<and> globalIndex r - offset T < int (length (rows T))"
proof -
  from assms(2) obtain i where "i < length (rows T)" and "rows T ! i = r"
    by (auto simp add: in_set_conv_nth)
  with localIndexed_nth [OF assms(1), of i] show ?thesis by auto
qed

lemma localIndexed_distinct:
  assumes "localIndexed T"
  shows "distinct (map globalIndex (rows T))"
proof -
  have "distinct (map (\<lambda>i. offset T + int i) [0..<length (rows T)])"
    by (simp add: distinct_map inj_on_def)
  with assms show ?thesis by (simp add: localIndexed_def)
qed

lemma localIndexed_mask:
  assumes "localIndexed T" and "length sel = length (rows T)"
  shows "map (\<lambda>r. sel ! nat (globalIndex r - offset T)) (rows T) = sel"
proof (rule nth_equalityI)
  show "length (map (\<lambda>r. sel ! nat (globalIndex r - offset T)) (rows T)) = length sel"
    using assms(2) by simp
next
  fix i
  assume "i < length (map (\<lambda>r. sel ! nat (globalIndex r - offset T)) (rows T))"
  then have "i < length (rows T)" by simp
  with localIndexed_nth [OF assms(1), of i]
  show "map (\<lambda>r. sel ! nat (globalIndex r - offset T)) (rows T) ! i = sel ! i"
    by simp
qed

text \<open>Counting the set bits of a mask along the rows.\<close>

lemma count_mask:
  assumes "localIndexed T" and "length sel = length (rows T)"
  shows "length (filter (\<lambda>r. sel ! nat (globalIndex r - offset T)) (rows T)) = length (filter id sel)"
proof -
  have "length (filter id (map (\<lambda>r. sel ! nat (globalIndex r - offset T)) (rows T)))
          = length (filter (\<lambda>r. sel ! nat (globalIndex r - offset T)) (rows T))"
    by (simp add: filter_map comp_def)
  then show ?thesis
    using localIndexed_mask [OF assms] by simp
qed

lemma zip_map_same: "zip (map f xs) (map g xs) = map (\<lambda>r. (f r, g r)) xs"
  by (induction xs) simp_all

lemma count_both_masks:
  assumes "localIndexed T" and "length selK = length (rows T)" and "length selG = length (rows T)"
  shows "length (filter (\<lambda>r. selK ! nat (globalIndex r - offset T) \<and> selG ! nat (globalIndex r - offset T)) (rows T))
           = length (filter (\<lambda>(a, b). a \<and> b) (zip selK selG))"
proof -
  have "zip selK selG
          = zip (map (\<lambda>r. selK ! nat (globalIndex r - offset T)) (rows T))
                (map (\<lambda>r. selG ! nat (globalIndex r - offset T)) (rows T))"
    using localIndexed_mask [OF assms(1,2)] localIndexed_mask [OF assms(1,3)] by simp
  also have "\<dots> = map (\<lambda>r. (selK ! nat (globalIndex r - offset T), selG ! nat (globalIndex r - offset T))) (rows T)"
    by (rule zip_map_same)
  finally show ?thesis
    by (simp add: filter_map comp_def)
qed

text \<open>Removing one row from a filter, and the sum over the selected first rows.\<close>

lemma filter_other_index:
  "f k \<notin> f ` set xs \<Longrightarrow> filter (\<lambda>g. Q g \<and> f k \<noteq> f g) xs = filter Q xs"
  by (induction xs) auto

lemma filter_except_count:
  "distinct (map f xs) \<Longrightarrow> k \<in> set xs \<Longrightarrow>
     length (filter (\<lambda>g. Q g \<and> f k \<noteq> f g) xs) + (if Q k then 1 else 0) = length (filter Q xs)"
proof (induction xs)
  case Nil
  then show ?case by simp
next
  case (Cons x xs)
  show ?case
  proof (cases "k = x")
    case True
    with Cons.prems have "f k \<notin> f ` set xs" by simp
    then have "filter (\<lambda>g. Q g \<and> f k \<noteq> f g) xs = filter Q xs"
      by (rule filter_other_index)
    with True show ?thesis by simp
  next
    case False
    with Cons.prems have k: "k \<in> set xs" by simp
    from Cons.prems have "f x \<notin> f ` set xs" by simp
    with k have "f k \<noteq> f x" by (metis imageI)
    with k Cons.IH Cons.prems show ?thesis by auto
  qed
qed

lemma pair_count:
  "distinct (map f xs) \<Longrightarrow> set ks \<subseteq> set xs \<Longrightarrow>
     sum_list (map (\<lambda>k. length (filter (\<lambda>g. Q g \<and> f k \<noteq> f g) xs)) (filter P ks))
       + length (filter (\<lambda>k. P k \<and> Q k) ks)
     = length (filter P ks) * length (filter Q xs)"
proof (induction ks)
  case Nil
  then show ?case by simp
next
  case (Cons k ks)
  then have IH: "sum_list (map (\<lambda>k. length (filter (\<lambda>g. Q g \<and> f k \<noteq> f g) xs)) (filter P ks))
       + length (filter (\<lambda>k. P k \<and> Q k) ks)
     = length (filter P ks) * length (filter Q xs)"
    and k: "k \<in> set xs"
    by auto
  from filter_except_count [OF Cons.prems(1) k, of Q]
  have one: "length (filter (\<lambda>g. Q g \<and> f k \<noteq> f g) xs) + (if Q k then 1 else 0) = length (filter Q xs)" .
  show ?case
  proof (cases "P k")
    case True
    with IH one show ?thesis by (cases "Q k") auto
  next
    case False
    with IH show ?thesis by simp
  qed
qed

lemma distinct_pairs:
  "distinct ks \<Longrightarrow> (\<And>k. distinct (h k)) \<Longrightarrow> distinct (concat (map (\<lambda>k. map (Pair k) (h k)) ks))"
  by (induction ks) (auto simp add: distinct_map inj_on_def)

text \<open>The two scenarios, evaluated.\<close>

lemmas scenario_defs =
  formedPairs_def sharingV0s_def disjointV0s_def maskK0Short_def maskGamma_def candidateAt_def
  vecAt_def checkTrackIndices_def

lemma sharing_pairs:
  "formedPairs sharingV0s maskK0Short maskGamma
     = Inr [(candidateAt 10 0 1, candidateAt 11 2 3), (candidateAt 12 0 4, candidateAt 11 2 3)]"
  by (simp add: scenario_defs)

lemma disjoint_pairs:
  "formedPairs disjointV0s maskK0Short maskGamma
     = Inr [(candidateAt 10 0 1, candidateAt 11 2 3), (candidateAt 10 0 1, candidateAt 12 4 5),
            (candidateAt 12 4 5, candidateAt 11 2 3)]"
  by (simp add: scenario_defs)

section \<open>Every formed pair is valid\<close>

text \<open>
  Claim C2. Whatever the batch and the masks, and so also when distinct candidates
  have daughter tracks in common, every pair that \<open>buildV0V0Pairs\<close> hands to
  \<open>analyseV0PairCandidate\<close> is made of two rows of the batch with different global
  indices (two distinct candidates), with the four equalities between their positive
  and negative daughter-track indices all false, and with the K0-short mask bit of the
  first and the photon mask bit of the second set. The loops do return pairs when the
  masks have the length of the batch and the rows carry their local indices, as in
  \<open>processRealData\<close> and \<open>processMonteCarlo\<close>.
\<close>

theorem formed_pairs_valid:
  "(formedPairs fullV0s selK0ShortIndices selGammaIndices = Inr ps \<and> (k0short, gamma) \<in> set ps \<longrightarrow>
      k0short \<in> set (rows fullV0s) \<and> gamma \<in> set (rows fullV0s)
      \<and> globalIndex k0short \<noteq> globalIndex gamma \<and> k0short \<noteq> gamma
      \<and> posTrackExtraId k0short \<noteq> posTrackExtraId gamma
      \<and> posTrackExtraId k0short \<noteq> negTrackExtraId gamma
      \<and> negTrackExtraId k0short \<noteq> posTrackExtraId gamma
      \<and> negTrackExtraId k0short \<noteq> negTrackExtraId gamma
      \<and> vecAt selK0ShortIndices (globalIndex k0short - offset fullV0s) = Inr True
      \<and> vecAt selGammaIndices (globalIndex gamma - offset fullV0s) = Inr True)
   \<and> (localIndexed fullV0s \<and> length selK0ShortIndices = length (rows fullV0s)
        \<and> length selGammaIndices = length (rows fullV0s) \<longrightarrow>
      (\<exists>qs. formedPairs fullV0s selK0ShortIndices selGammaIndices = Inr qs))"
proof -
  have valid: "k0short \<in> set (rows fullV0s) \<and> gamma \<in> set (rows fullV0s)
      \<and> globalIndex k0short \<noteq> globalIndex gamma \<and> k0short \<noteq> gamma
      \<and> posTrackExtraId k0short \<noteq> posTrackExtraId gamma
      \<and> posTrackExtraId k0short \<noteq> negTrackExtraId gamma
      \<and> negTrackExtraId k0short \<noteq> posTrackExtraId gamma
      \<and> negTrackExtraId k0short \<noteq> negTrackExtraId gamma
      \<and> vecAt selK0ShortIndices (globalIndex k0short - offset fullV0s) = Inr True
      \<and> vecAt selGammaIndices (globalIndex gamma - offset fullV0s) = Inr True"
    if "formedPairs fullV0s selK0ShortIndices selGammaIndices = Inr ps \<and> (k0short, gamma) \<in> set ps"
  proof -
    from that
    have "v0Loop (offset fullV0s) selK0ShortIndices selGammaIndices (rows fullV0s) (rows fullV0s) = Inr ps"
      and "(k0short, gamma) \<in> set ps"
      by (simp_all add: formedPairs_def)
    from v0Loop_member [OF this] show ?thesis
      by (auto simp add: checkTrackIndices_iff)
  qed
  have returns: "\<exists>qs. formedPairs fullV0s selK0ShortIndices selGammaIndices = Inr qs"
    if "localIndexed fullV0s \<and> length selK0ShortIndices = length (rows fullV0s)
        \<and> length selGammaIndices = length (rows fullV0s)"
  proof -
    from that
    have "\<forall>r \<in> set (rows fullV0s). 0 \<le> globalIndex r - offset fullV0s
               \<and> globalIndex r - offset fullV0s < int (length selK0ShortIndices)"
      and "\<forall>r \<in> set (rows fullV0s). 0 \<le> globalIndex r - offset fullV0s
               \<and> globalIndex r - offset fullV0s < int (length selGammaIndices)"
      using localIndexed_range [of fullV0s] by auto
    from v0Loop_in_range [OF this] show ?thesis
      by (simp add: formedPairs_def)
  qed
  from valid returns show ?thesis by blast
qed

theorem formed_pairs_valid_witness:
  "formedPairs sharingV0s maskK0Short maskGamma
     = Inr [(candidateAt 10 0 1, candidateAt 11 2 3), (candidateAt 12 0 4, candidateAt 11 2 3)]
   \<and> posTrackExtraId (candidateAt 10 0 1) = posTrackExtraId (candidateAt 12 0 4)
   \<and> globalIndex (candidateAt 12 0 4) \<noteq> globalIndex (candidateAt 11 2 3)
   \<and> posTrackExtraId (candidateAt 12 0 4) \<noteq> posTrackExtraId (candidateAt 11 2 3)
   \<and> posTrackExtraId (candidateAt 12 0 4) \<noteq> negTrackExtraId (candidateAt 11 2 3)
   \<and> negTrackExtraId (candidateAt 12 0 4) \<noteq> posTrackExtraId (candidateAt 11 2 3)
   \<and> negTrackExtraId (candidateAt 12 0 4) \<noteq> negTrackExtraId (candidateAt 11 2 3)
   \<and> vecAt maskK0Short (globalIndex (candidateAt 12 0 4) - offset sharingV0s) = Inr True
   \<and> vecAt maskGamma (globalIndex (candidateAt 11 2 3) - offset sharingV0s) = Inr True
   \<and> localIndexed sharingV0s
   \<and> length maskK0Short = length (rows sharingV0s)
   \<and> length maskGamma = length (rows sharingV0s)"
proof -
  have mem: "formedPairs sharingV0s maskK0Short maskGamma
        = Inr [(candidateAt 10 0 1, candidateAt 11 2 3), (candidateAt 12 0 4, candidateAt 11 2 3)]
      \<and> (candidateAt 12 0 4, candidateAt 11 2 3)
          \<in> set [(candidateAt 10 0 1, candidateAt 11 2 3), (candidateAt 12 0 4, candidateAt 11 2 3)]"
    using sharing_pairs by simp
  have shared: "posTrackExtraId (candidateAt 10 0 1) = posTrackExtraId (candidateAt 12 0 4)"
    by (simp add: candidateAt_def)
  have aligned: "localIndexed sharingV0s \<and> length maskK0Short = length (rows sharingV0s)
      \<and> length maskGamma = length (rows sharingV0s)"
    by (simp add: localIndexed_def sharingV0s_def maskK0Short_def maskGamma_def candidateAt_def upt_rec)
  from formed_pairs_valid [of sharingV0s maskK0Short maskGamma
      "[(candidateAt 10 0 1, candidateAt 11 2 3), (candidateAt 12 0 4, candidateAt 11 2 3)]"
      "candidateAt 12 0 4" "candidateAt 11 2 3"] mem shared aligned
  show ?thesis by blast
qed

section \<open>The number of formed pairs\<close>

text \<open>
  Claim C7. Take a batch whose rows carry their local indices, masks of the length of
  the batch, and no daughter track in common between two distinct candidates. Then
  \<open>buildV0V0Pairs\<close> forms a list of pairs without repetition, whose elements are exactly
  the valid combinations: the pairs of a row selected by the K0-short mask and a
  different row selected by the photon mask. Their number is the product of the
  numbers of set bits of the two masks minus the number of positions set in both. The
  roles are those of the masks: the reverse \<open>(g, k)\<close> of a formed pair \<open>(k, g)\<close> is formed
  only when it is a valid combination itself, \<open>g\<close> selected by the K0-short mask and
  \<open>k\<close> by the photon mask.
\<close>

theorem formed_pairs_count:
  assumes idx: "localIndexed fullV0s"
      and lenK: "length selK0ShortIndices = length (rows fullV0s)"
      and lenG: "length selGammaIndices = length (rows fullV0s)"
      and disjoint: "\<forall>k \<in> set (rows fullV0s). \<forall>g \<in> set (rows fullV0s).
                       globalIndex k \<noteq> globalIndex g \<longrightarrow>
                         posTrackExtraId k \<noteq> posTrackExtraId g \<and> posTrackExtraId k \<noteq> negTrackExtraId g
                         \<and> negTrackExtraId k \<noteq> posTrackExtraId g \<and> negTrackExtraId k \<noteq> negTrackExtraId g"
  shows "\<exists>ps. formedPairs fullV0s selK0ShortIndices selGammaIndices = Inr ps
           \<and> distinct ps
           \<and> set ps = {(k, g). k \<in> set (rows fullV0s) \<and> g \<in> set (rows fullV0s)
                          \<and> selK0ShortIndices ! nat (globalIndex k - offset fullV0s)
                          \<and> selGammaIndices ! nat (globalIndex g - offset fullV0s)
                          \<and> globalIndex k \<noteq> globalIndex g}
           \<and> length ps = length (filter id selK0ShortIndices) * length (filter id selGammaIndices)
                            - length (filter (\<lambda>(a, b). a \<and> b) (zip selK0ShortIndices selGammaIndices))
           \<and> (\<forall>k g. (k, g) \<in> set ps \<longrightarrow>
                 ((g, k) \<in> set ps) = (selK0ShortIndices ! nat (globalIndex g - offset fullV0s)
                                        \<and> selGammaIndices ! nat (globalIndex k - offset fullV0s)))"
proof -
  define Kp where "Kp = (\<lambda>r :: V0. selK0ShortIndices ! nat (globalIndex r - offset fullV0s))"
  define Gp where "Gp = (\<lambda>r :: V0. selGammaIndices ! nat (globalIndex r - offset fullV0s))"
  define ps where "ps = concat (map (\<lambda>k. map (Pair k)
                          (filter (\<lambda>g. Gp g \<and> globalIndex k \<noteq> globalIndex g) (rows fullV0s)))
                        (filter Kp (rows fullV0s)))"
  have rangeK: "\<forall>r \<in> set (rows fullV0s). 0 \<le> globalIndex r - offset fullV0s
                  \<and> globalIndex r - offset fullV0s < int (length selK0ShortIndices)"
    and rangeG: "\<forall>r \<in> set (rows fullV0s). 0 \<le> globalIndex r - offset fullV0s
                  \<and> globalIndex r - offset fullV0s < int (length selGammaIndices)"
    using localIndexed_range [OF idx] lenK lenG by auto
  have dist_idx: "distinct (map globalIndex (rows fullV0s))"
    by (rule localIndexed_distinct [OF idx])
  then have dist_rows: "distinct (rows fullV0s)"
    by (simp add: distinct_map)
  have inner: "filter (\<lambda>g. Gp g \<and> globalIndex k \<noteq> globalIndex g \<and> checkTrackIndices k g) (rows fullV0s)
                 = filter (\<lambda>g. Gp g \<and> globalIndex k \<noteq> globalIndex g) (rows fullV0s)"
    if "k \<in> set (rows fullV0s)" for k
    using that disjoint by (intro filter_cong) (auto simp add: checkTrackIndices_iff)
  have "formedPairs fullV0s selK0ShortIndices selGammaIndices
          = Inr (concat (map (\<lambda>k. map (Pair k)
                   (filter (\<lambda>g. Gp g \<and> globalIndex k \<noteq> globalIndex g \<and> checkTrackIndices k g) (rows fullV0s)))
                 (filter Kp (rows fullV0s))))"
    unfolding formedPairs_def Kp_def Gp_def by (rule v0Loop_in_range [OF rangeK rangeG])
  also have "concat (map (\<lambda>k. map (Pair k)
                   (filter (\<lambda>g. Gp g \<and> globalIndex k \<noteq> globalIndex g \<and> checkTrackIndices k g) (rows fullV0s)))
                 (filter Kp (rows fullV0s))) = ps"
    unfolding ps_def by (intro arg_cong [where f = concat] map_cong refl) (simp add: inner)
  finally have formed: "formedPairs fullV0s selK0ShortIndices selGammaIndices = Inr ps" .
  have dist: "distinct ps"
    unfolding ps_def using dist_rows by (intro distinct_pairs) simp_all
  have elems: "set ps = {(k, g). k \<in> set (rows fullV0s) \<and> g \<in> set (rows fullV0s)
                          \<and> Kp k \<and> Gp g \<and> globalIndex k \<noteq> globalIndex g}"
    unfolding ps_def by auto
  have "length ps = sum_list (map (\<lambda>k. length (filter (\<lambda>g. Gp g \<and> globalIndex k \<noteq> globalIndex g) (rows fullV0s)))
                       (filter Kp (rows fullV0s)))"
    unfolding ps_def by (simp add: length_concat comp_def)
  with pair_count [OF dist_idx subset_refl, of Gp Kp]
  have "length ps + length (filter (\<lambda>k. Kp k \<and> Gp k) (rows fullV0s))
          = length (filter Kp (rows fullV0s)) * length (filter Gp (rows fullV0s))"
    by simp
  moreover have "length (filter Kp (rows fullV0s)) = length (filter id selK0ShortIndices)"
    unfolding Kp_def by (rule count_mask [OF idx lenK])
  moreover have "length (filter Gp (rows fullV0s)) = length (filter id selGammaIndices)"
    unfolding Gp_def by (rule count_mask [OF idx lenG])
  moreover have "length (filter (\<lambda>k. Kp k \<and> Gp k) (rows fullV0s))
                   = length (filter (\<lambda>(a, b). a \<and> b) (zip selK0ShortIndices selGammaIndices))"
    unfolding Kp_def Gp_def by (rule count_both_masks [OF idx lenK lenG])
  ultimately have count: "length ps = length (filter id selK0ShortIndices) * length (filter id selGammaIndices)
                            - length (filter (\<lambda>(a, b). a \<and> b) (zip selK0ShortIndices selGammaIndices))"
    by simp
  have reverse: "\<forall>k g. (k, g) \<in> set ps \<longrightarrow> ((g, k) \<in> set ps) = (Kp g \<and> Gp k)"
    unfolding elems by auto
  from formed dist elems count reverse show ?thesis
    unfolding Kp_def Gp_def by blast
qed

theorem formed_pairs_count_witness:
  "localIndexed disjointV0s
   \<and> length maskK0Short = length (rows disjointV0s)
   \<and> length maskGamma = length (rows disjointV0s)
   \<and> formedPairs disjointV0s maskK0Short maskGamma
       = Inr [(candidateAt 10 0 1, candidateAt 11 2 3), (candidateAt 10 0 1, candidateAt 12 4 5),
              (candidateAt 12 4 5, candidateAt 11 2 3)]
   \<and> length (filter id maskK0Short) = 2 \<and> length (filter id maskGamma) = 2
   \<and> length (filter (\<lambda>(a, b). a \<and> b) (zip maskK0Short maskGamma)) = 1
   \<and> length [(candidateAt 10 0 1, candidateAt 11 2 3), (candidateAt 10 0 1, candidateAt 12 4 5),
              (candidateAt 12 4 5, candidateAt 11 2 3)]
       = length (filter id maskK0Short) * length (filter id maskGamma)
           - length (filter (\<lambda>(a, b). a \<and> b) (zip maskK0Short maskGamma))"
proof -
  have idx: "localIndexed disjointV0s"
    by (simp add: localIndexed_def disjointV0s_def candidateAt_def upt_rec)
  have lenK: "length maskK0Short = length (rows disjointV0s)"
    and lenG: "length maskGamma = length (rows disjointV0s)"
    by (simp_all add: disjointV0s_def maskK0Short_def maskGamma_def)
  have disjoint: "\<forall>k \<in> set (rows disjointV0s). \<forall>g \<in> set (rows disjointV0s).
                       globalIndex k \<noteq> globalIndex g \<longrightarrow>
                         posTrackExtraId k \<noteq> posTrackExtraId g \<and> posTrackExtraId k \<noteq> negTrackExtraId g
                         \<and> negTrackExtraId k \<noteq> posTrackExtraId g \<and> negTrackExtraId k \<noteq> negTrackExtraId g"
    by (simp add: disjointV0s_def candidateAt_def)
  have bits: "length (filter id maskK0Short) = 2 \<and> length (filter id maskGamma) = 2
      \<and> length (filter (\<lambda>(a, b). a \<and> b) (zip maskK0Short maskGamma)) = 1"
    by (simp add: maskK0Short_def maskGamma_def)
  from formed_pairs_count [OF idx lenK lenG disjoint] disjoint_pairs
  have "length [(candidateAt 10 0 1, candidateAt 11 2 3), (candidateAt 10 0 1, candidateAt 12 4 5),
              (candidateAt 12 4 5, candidateAt 11 2 3)]
       = length (filter id maskK0Short) * length (filter id maskGamma)
           - length (filter (\<lambda>(a, b). a \<and> b) (zip maskK0Short maskGamma))"
    by auto
  with idx lenK lenG disjoint_pairs bits show ?thesis by blast
qed

end
